theory Spec2Isabelle
  imports Main "HOL-Library.Log_Nat" "HOL-Library.Sublist"
begin

section \<open>JavaScript numbers\<close>

text \<open>
  Every coordinate, extrusion amount and feed rate of \<^verbatim>\<open>GCodeLoaderLayer.js\<close> is a
  JavaScript number: an IEEE 754 double. A finite double is an exact rational, so a number is
  modelled as a rational or one of the four special values. \<open>Fin 0\<close> is the positive zero,
  \<open>NegZero\<close> the negative one. The arithmetic operators compute the exact rational result and
  round it to the nearest double, ties to the even significand, as the language does.
\<close>

datatype num = Fin rat | NegZero | PInf | NInf | NaN

definition ipow :: "rat \<Rightarrow> int \<Rightarrow> rat" where
  "ipow b k = (if 0 \<le> k then b ^ nat k else 1 / b ^ nat (- k))"

text \<open>\<open>ilog2 q\<close> is the binary exponent of a positive rational: the \<open>k\<close> with
  \<open>2^k \<le> q < 2^(k+1)\<close>. \<open>floorlog 2 n\<close> is the bit length of \<open>n\<close>.\<close>

definition ilog2 :: "rat \<Rightarrow> int" where
  "ilog2 q = (case quotient_of q of (n, d) \<Rightarrow>
     (let g = int (floorlog 2 (nat n)) - int (floorlog 2 (nat d))
      in if ipow 2 g \<le> q then g else g - 1))"

definition round_even :: "rat \<Rightarrow> int" where
  "round_even k = (let fl = \<lfloor>k\<rfloor>; r = k - of_int fl
     in if r < 1 / 2 then fl else if 1 / 2 < r then fl + 1
        else if even fl then fl else fl + 1)"

text \<open>
  Rounding to double precision: 53 significant bits, the least exponent of a normal number
  is \<open>-1022\<close> (below it the spacing stays \<open>2^-1074\<close>), and a magnitude that rounds to
  \<open>2^1024\<close> or more is infinite. A nonzero value that rounds to zero keeps its sign.
\<close>

definition rnd :: "rat \<Rightarrow> num" where
  "rnd q = (if q = 0 then Fin 0 else
     (let a = \<bar>q\<bar>;
          ue = max (ilog2 a) (- 1022) - 52;
          m = round_even (a / ipow 2 ue);
          r = of_int m * ipow 2 ue
      in if ipow 2 1024 \<le> r then (if q < 0 then NInf else PInf)
         else if m = 0 then (if q < 0 then NegZero else Fin 0)
         else Fin (if q < 0 then - r else r)))"

fun fneg :: "num \<Rightarrow> num" where
  "fneg (Fin a) = (if a = 0 then NegZero else Fin (- a))"
| "fneg NegZero = Fin 0"
| "fneg PInf = NInf"
| "fneg NInf = PInf"
| "fneg NaN = NaN"

text \<open>The operator \<^verbatim>\<open>+\<close> on two numbers.\<close>

fun fadd :: "num \<Rightarrow> num \<Rightarrow> num" where
  "fadd NaN b = NaN"
| "fadd a NaN = NaN"
| "fadd PInf NInf = NaN"
| "fadd NInf PInf = NaN"
| "fadd PInf b = PInf"
| "fadd a PInf = PInf"
| "fadd NInf b = NInf"
| "fadd a NInf = NInf"
| "fadd NegZero NegZero = NegZero"
| "fadd NegZero (Fin b) = Fin b"
| "fadd (Fin a) NegZero = Fin a"
| "fadd (Fin a) (Fin b) = rnd (a + b)"

text \<open>The operator \<^verbatim>\<open>-\<close> on two numbers.\<close>

definition fsub :: "num \<Rightarrow> num \<Rightarrow> num" where
  "fsub a b = fadd a (fneg b)"

text \<open>The test \<^verbatim>\<open>v > 0\<close>: false for NaN and for both zeros.\<close>

fun gt0 :: "num \<Rightarrow> bool" where
  "gt0 (Fin a) = (0 < a)"
| "gt0 PInf = True"
| "gt0 NegZero = False"
| "gt0 NInf = False"
| "gt0 NaN = False"

text \<open>The test \<^verbatim>\<open>a != b\<close> on two numbers: NaN differs from every number, itself
  included, and the two zeros are equal.\<close>

fun unsigned_zero :: "num \<Rightarrow> num" where
  "unsigned_zero NegZero = Fin 0"
| "unsigned_zero a = a"

fun js_ne :: "num \<Rightarrow> num \<Rightarrow> bool" where
  "js_ne NaN b = True"
| "js_ne a NaN = True"
| "js_ne a b = (unsigned_zero a \<noteq> unsigned_zero b)"

section \<open>Text: the built-in string operations the loader calls\<close>

text \<open>
  A JavaScript string is a sequence of 16-bit code units; the model covers the texts whose
  code units are below 256, one \<open>char\<close> each. The functions of this section are the
  language's own (\<^verbatim>\<open>replace\<close> with the loader's regular expression,
  \<^verbatim>\<open>split\<close>, \<^verbatim>\<open>includes\<close>, \<^verbatim>\<open>toUpperCase\<close>, \<^verbatim>\<open>toLowerCase\<close>,
  \<^verbatim>\<open>parseFloat\<close>), written out as ECMAScript defines them.
\<close>

definition is_line_terminator :: "char \<Rightarrow> bool" where
  "is_line_terminator c = (c = CHR 0x0A \<or> c = CHR 0x0D)"

text \<open>\<^verbatim>\<open>data.replace(/;.+/g, '')\<close>: a semicolon followed by at least one character
  that is not a line terminator is removed together with the rest of its line. A semicolon
  right before a line terminator, or at the very end, stays.\<close>

function strip_comments :: "string \<Rightarrow> string" where
  "strip_comments [] = []"
| "strip_comments [c] = [c]"
| "strip_comments (c # d # cs) =
     (if c = CHR '';'' \<and> \<not> is_line_terminator d
      then strip_comments (dropWhile (\<lambda>a. \<not> is_line_terminator a) cs)
      else c # strip_comments (d # cs))"
  by pat_completeness auto
termination
  by (relation "measure length") (auto simp: length_dropWhile_le less_Suc_eq_le le_SucI)

text \<open>\<^verbatim>\<open>s.split(sep)\<close> for a one-character separator: never the empty array.\<close>

fun js_split :: "char \<Rightarrow> string \<Rightarrow> string list" where
  "js_split sep [] = [[]]"
| "js_split sep (c # cs) =
     (if c = sep then [] # js_split sep cs
      else (case js_split sep cs of [] \<Rightarrow> [[c]] | t # ts \<Rightarrow> (c # t) # ts))"

fun js_includes :: "string \<Rightarrow> string \<Rightarrow> bool" where
  "js_includes [] pat = (pat = [])"
| "js_includes (c # cs) pat = (prefix pat (c # cs) \<or> js_includes cs pat)"

text \<open>
  Case conversion, one code unit at a time, for the code units below 256. Besides the ASCII
  letters these are the letters U+00C0 to U+00DE and U+00E0 to U+00FE (without the signs
  U+00D7 and U+00F7), 32 apart, and U+00DF, whose upper case is the two letters
  \<^verbatim>\<open>SS\<close>. The upper-case forms of U+00B5 and U+00FF are U+039C and U+0178, which no
  \<open>char\<close> holds: the two are left as they are, like the real result no ASCII character.
\<close>

definition toUpperCase_unit :: "char \<Rightarrow> string" where
  "toUpperCase_unit c =
     (case map_of (zip ''abcdefghijklmnopqrstuvwxyz'' ''ABCDEFGHIJKLMNOPQRSTUVWXYZ'') c of
        Some u \<Rightarrow> [u]
      | None \<Rightarrow>
         (let n = (of_char c :: nat)
          in if n = 223 then ''SS''
             else if 224 \<le> n \<and> n \<le> 254 \<and> n \<noteq> 247 then [char_of (n - 32)]
             else [c]))"

definition toLowerCase_char :: "char \<Rightarrow> char" where
  "toLowerCase_char c =
     (case map_of (zip ''ABCDEFGHIJKLMNOPQRSTUVWXYZ'' ''abcdefghijklmnopqrstuvwxyz'') c of
        Some l \<Rightarrow> l
      | None \<Rightarrow>
         (let n = (of_char c :: nat)
          in if 192 \<le> n \<and> n \<le> 222 \<and> n \<noteq> 215 then char_of (n + 32) else c))"

definition toUpperCase :: "string \<Rightarrow> string" where
  "toUpperCase s = concat (map toUpperCase_unit s)"

definition is_digit :: "char \<Rightarrow> bool" where
  "is_digit c = (c \<in> set ''0123456789'')"

definition is_white_space :: "char \<Rightarrow> bool" where
  "is_white_space c = ((of_char c :: nat) \<in> {9, 10, 11, 12, 13, 32, 160})"

definition digits_value :: "string \<Rightarrow> nat" where
  "digits_value ds = foldl (\<lambda>a c. 10 * a + ((of_char c :: nat) - 48)) 0 ds"

text \<open>The exponent part of a decimal literal, \<^verbatim>\<open>e\<close> or \<^verbatim>\<open>E\<close>, an optional sign
  and at least one digit; anything else is no exponent.\<close>

definition exponent_part :: "string \<Rightarrow> int" where
  "exponent_part s = (case s of
       [] \<Rightarrow> 0
     | c # r \<Rightarrow>
        if c = CHR ''e'' \<or> c = CHR ''E'' then
          (case r of
             [] \<Rightarrow> 0
           | d # r' \<Rightarrow>
              if d = CHR ''-'' then - int (digits_value (takeWhile is_digit r'))
              else if d = CHR ''+'' then int (digits_value (takeWhile is_digit r'))
              else int (digits_value (takeWhile is_digit r)))
        else 0)"

text \<open>
  \<^verbatim>\<open>parseFloat\<close>: leading white space is skipped, the longest prefix that is a decimal
  literal (optional sign, then \<^verbatim>\<open>Infinity\<close> or digits with an optional fraction and
  exponent) is read, and its value is rounded to a double; with no such prefix the result
  is NaN.
\<close>

definition parseFloat :: "string \<Rightarrow> num" where
  "parseFloat s =
    (let t = dropWhile is_white_space s;
         neg = (case t of [] \<Rightarrow> False | c # r \<Rightarrow> c = CHR ''-'');
         u = (case t of [] \<Rightarrow> [] | c # r \<Rightarrow> if c = CHR ''-'' \<or> c = CHR ''+'' then r else t)
     in if prefix ''Infinity'' u then (if neg then NInf else PInf)
        else
         (let ip = takeWhile is_digit u;
              r1 = dropWhile is_digit u;
              has_dot = (case r1 of [] \<Rightarrow> False | c # r \<Rightarrow> c = CHR ''.'');
              fp = (if has_dot then takeWhile is_digit (tl r1) else []);
              r2 = (if has_dot then dropWhile is_digit (tl r1) else r1)
          in if ip = [] \<and> fp = [] then NaN
             else
              (let m = digits_value (ip @ fp);
                   q = of_nat m * ipow 10 (exponent_part r2 - int (length fp))
               in if m = 0 then (if neg then NegZero else Fin 0)
                  else rnd (if neg then - q else q))))"

section \<open>The loader's data\<close>

text \<open>
  The object \<^verbatim>\<open>state\<close> of \<^verbatim>\<open>parse\<close>. The fields are named \<open>sx\<close> ... \<open>sf\<close> for the
  source's \<^verbatim>\<open>x\<close> ... \<^verbatim>\<open>f\<close>. The object literal of a move (\<^verbatim>\<open>line\<close>) has no
  \<^verbatim>\<open>extruding\<close> and no \<^verbatim>\<open>relative\<close> property, and \<^verbatim>\<open>state = line\<close> makes it the
  state: a missing property is \<open>None\<close>, which reads as \<^verbatim>\<open>undefined\<close> and is falsy.
\<close>

record mstate =
  sx :: num
  sy :: num
  sz :: num
  se :: num
  sf :: num
  extruding :: "bool option"
  relative :: "bool option"

text \<open>A layer object; \<open>lz\<close> is its property \<^verbatim>\<open>z\<close>.\<close>

record layer =
  vertex :: "num list"
  pathVertex :: "num list"
  supportVertex :: "num list"
  lz :: num

text \<open>
  What the loop of \<^verbatim>\<open>parse\<close> reads and writes: the state object, the array
  \<^verbatim>\<open>layers\<close>, the variable \<^verbatim>\<open>currentLayer\<close> and the module variable \<^verbatim>\<open>tcode\<close>.
  \<^verbatim>\<open>currentLayer\<close> refers to an object that is also an element of \<^verbatim>\<open>layers\<close>; it is
  modelled as the index of that element, \<open>None\<close> for \<^verbatim>\<open>undefined\<close>.
\<close>

record pstate =
  state :: mstate
  layers :: "layer list"
  currentLayer :: "nat option"
  tcode :: nat

type_synonym args = "char \<rightharpoonup> num"

text \<open>The states in which \<^verbatim>\<open>currentLayer\<close>, when defined, is an element of
  \<^verbatim>\<open>layers\<close>; \<^verbatim>\<open>newLayer\<close> is the only writer of both, so every state of a parse is one.\<close>

definition cur_ok :: "pstate \<Rightarrow> bool" where
  "cur_ok ps = (case currentLayer ps of None \<Rightarrow> True | Some i \<Rightarrow> i < length (layers ps))"

section \<open>The interpreter\<close>

definition newLayer :: "mstate \<Rightarrow> pstate \<Rightarrow> pstate" where
  "newLayer line ps =
     ps\<lparr>layers := layers ps @ [\<lparr>vertex = [], pathVertex = [], supportVertex = [], lz = sz line\<rparr>],
        currentLayer := Some (length (layers ps))\<rparr>"

definition addSegment :: "mstate \<Rightarrow> mstate \<Rightarrow> nat \<Rightarrow> pstate \<Rightarrow> pstate" where
  "addSegment p1 p2 tc ps0 =
    (let ps = (if currentLayer ps0 = None then newLayer p1 ps0 else ps0)
     in case currentLayer ps of
          None \<Rightarrow> ps
        | Some i \<Rightarrow>
           (let l = layers ps ! i;
                seg = [sx p1, sy p1, sz p1, sx p2, sy p2, sz p2]
            in if extruding (state ps) = Some True \<and> tc = 1
               then ps\<lparr>layers := (layers ps)[i := l\<lparr>vertex := vertex l @ seg\<rparr>]\<rparr>
               else if extruding (state ps) = Some True \<and> tc = 0
               then ps\<lparr>layers := (layers ps)[i := l\<lparr>supportVertex := supportVertex l @ seg\<rparr>]\<rparr>
               else ps\<lparr>layers := (layers ps)[i := l\<lparr>pathVertex := pathVertex l @ seg\<rparr>]\<rparr>))"

definition delta :: "mstate \<Rightarrow> num \<Rightarrow> num \<Rightarrow> num" where
  "delta st v1 v2 = (if relative st = Some True then v2 else fsub v2 v1)"

definition absolute :: "mstate \<Rightarrow> num \<Rightarrow> num \<Rightarrow> num" where
  "absolute st v1 v2 = (if relative st = Some True then fadd v1 v2 else v2)"

text \<open>The object literal \<^verbatim>\<open>line\<close> of a G0/G1 command, one literal per tool.\<close>

definition make_line :: "nat \<Rightarrow> args \<Rightarrow> mstate \<Rightarrow> mstate" where
  "make_line tc a st =
    (if tc = 0 then
       \<lparr>sx = (case a CHR ''x'' of Some v \<Rightarrow> absolute st (sx st) v | None \<Rightarrow> sx st),
        sy = (case a CHR ''y'' of Some v \<Rightarrow> absolute st (sy st) v | None \<Rightarrow> sy st),
        sz = (case a CHR ''z'' of Some v \<Rightarrow> absolute st (sz st) v | None \<Rightarrow> sz st),
        se = (case a CHR ''e'' of Some v \<Rightarrow> absolute st (se st) v | None \<Rightarrow> se st),
        sf = (case a CHR ''f'' of Some v \<Rightarrow> absolute st (sf st) v | None \<Rightarrow> sf st),
        extruding = None, relative = None\<rparr>
     else
       \<lparr>sx = (case a CHR ''x'' of Some v \<Rightarrow> absolute st (sx st) (fsub v (Fin 22)) | None \<Rightarrow> sx st),
        sy = (case a CHR ''y'' of Some v \<Rightarrow> absolute st (sy st) v | None \<Rightarrow> sy st),
        sz = (case a CHR ''z'' of Some v \<Rightarrow> absolute st (sz st) v | None \<Rightarrow> sz st),
        se = (case a CHR ''e'' of Some v \<Rightarrow> absolute st (se st) v | None \<Rightarrow> se st),
        sf = (case a CHR ''f'' of Some v \<Rightarrow> absolute st (sf st) v | None \<Rightarrow> sf st),
        extruding = None, relative = None\<rparr>)"

text \<open>The value the loader tests against zero: \<^verbatim>\<open>delta(state.e, line.e)\<close>.\<close>

definition extrusion_delta :: "args \<Rightarrow> pstate \<Rightarrow> num" where
  "extrusion_delta a ps =
     delta (state ps) (se (state ps)) (se (make_line (tcode ps) a (state ps)))"

text \<open>Lines 164 to 170: the extruding flag and the layer change.\<close>

definition layer_change :: "mstate \<Rightarrow> pstate \<Rightarrow> pstate" where
  "layer_change line ps =
    (let d = delta (state ps) (se (state ps)) (se line)
     in if gt0 d then
          (let ps1 = ps\<lparr>state := (state ps)\<lparr>extruding := Some (gt0 d)\<rparr>\<rparr>
           in if (case currentLayer ps1 of
                    None \<Rightarrow> True
                  | Some i \<Rightarrow> js_ne (sz line) (lz (layers ps1 ! i)))
              then newLayer line ps1 else ps1)
        else ps)"

text \<open>The branch of G0 and G1.\<close>

definition linear_move :: "args \<Rightarrow> pstate \<Rightarrow> pstate" where
  "linear_move a ps =
    (let line = make_line (tcode ps) a (state ps);
         ps1 = layer_change line ps;
         ps2 = addSegment (state ps1) line (tcode ps1) ps1
     in ps2\<lparr>state := line\<rparr>)"

text \<open>The branch of G92: the state object is written in place and keeps its other
  properties.\<close>

definition set_position :: "args \<Rightarrow> pstate \<Rightarrow> pstate" where
  "set_position a ps =
    (let st = state ps
     in ps\<lparr>state := st\<lparr>sx := (case a CHR ''x'' of Some v \<Rightarrow> v | None \<Rightarrow> sx st),
                       sy := (case a CHR ''y'' of Some v \<Rightarrow> v | None \<Rightarrow> sy st),
                       sz := (case a CHR ''z'' of Some v \<Rightarrow> v | None \<Rightarrow> sz st),
                       se := (case a CHR ''e'' of Some v \<Rightarrow> v | None \<Rightarrow> se st)\<rparr>\<rparr>)"

definition exec_command :: "string \<Rightarrow> args \<Rightarrow> pstate \<Rightarrow> pstate" where
  "exec_command cmd a ps =
    (if cmd = ''G0'' \<or> cmd = ''G1'' then linear_move a ps
     else if cmd = ''G2'' \<or> cmd = ''G3'' then ps
     else if cmd = ''G90'' then ps\<lparr>state := (state ps)\<lparr>relative := Some False\<rparr>\<rparr>
     else if cmd = ''G91'' then ps\<lparr>state := (state ps)\<lparr>relative := Some True\<rparr>\<rparr>
     else if cmd = ''G92'' then set_position a ps
     else ps)"

text \<open>The tool markers, read before the line is split into tokens.\<close>

definition tool_markers :: "string \<Rightarrow> nat \<Rightarrow> nat" where
  "tool_markers line tc =
    (let tc1 = (if js_includes line ''T1'' then 1 else tc)
     in if js_includes line ''T0'' then 0 else tc1)"

text \<open>\<^verbatim>\<open>tokens[0].toUpperCase()\<close>; \<^verbatim>\<open>split\<close> gives at least one token.\<close>

definition command_code :: "string \<Rightarrow> string" where
  "command_code line = (case js_split CHR '' '' line of [] \<Rightarrow> [] | t # ts \<Rightarrow> toUpperCase t)"

text \<open>The arguments: every nonempty token after the first, its first character in lower
  case as the key, the rest through \<^verbatim>\<open>parseFloat\<close>; a later token overwrites an earlier
  one with the same key.\<close>

definition parse_args :: "string list \<Rightarrow> args" where
  "parse_args toks =
     foldl (\<lambda>a token. case token of [] \<Rightarrow> a | c # r \<Rightarrow> a(toLowerCase_char c \<mapsto> parseFloat r))
       Map.empty toks"

definition line_args :: "string \<Rightarrow> args" where
  "line_args line = parse_args (tl (js_split CHR '' '' line))"

text \<open>One round of the loop over the lines.\<close>

definition process_line :: "pstate \<Rightarrow> string \<Rightarrow> pstate" where
  "process_line ps line =
     exec_command (command_code line) (line_args line) (ps\<lparr>tcode := tool_markers line (tcode ps)\<rparr>)"

definition initial_state :: mstate where
  "initial_state = \<lparr>sx = Fin 0, sy = Fin 0, sz = Fin 0, se = Fin 0, sf = Fin 0,
                     extruding = Some False, relative = Some False\<rparr>"

text \<open>The start of \<^verbatim>\<open>parse\<close>: a fresh state, no layer; \<^verbatim>\<open>tcode\<close> is whatever the module
  variable holds.\<close>

definition initial_pstate :: "nat \<Rightarrow> pstate" where
  "initial_pstate tc = \<lparr>state = initial_state, layers = [], currentLayer = None, tcode = tc\<rparr>"

definition source_lines :: "string \<Rightarrow> string list" where
  "source_lines data = js_split CHR 0x0A (strip_comments data)"

definition interpret_text :: "nat \<Rightarrow> string \<Rightarrow> pstate" where
  "interpret_text tc data = foldl process_line (initial_pstate tc) (source_lines data)"

text \<open>\<^verbatim>\<open>let tcode = 0\<close> at module level, run once when the module is loaded.\<close>

definition tcode_at_load :: nat where
  "tcode_at_load = 0"

section \<open>The output object\<close>

text \<open>
  \<^verbatim>\<open>parse\<close> returns a group whose children are line-segment objects, added by
  \<^verbatim>\<open>addObject\<close>: each has the array of coordinates it was built from, one of the three
  materials (named path, support, extruded) and the number in its name
  \<^verbatim>\<open>"layer" + i\<close>. The group is modelled as the list of its children in the order
  they were added. \<open>positions\<close> is the array of doubles that \<^verbatim>\<open>addObject\<close> receives;
  the buffer attribute of the three.js library, which is not part of this repository, stores
  each of them converted to single precision.
\<close>

datatype material = PathMaterial | SupportMaterial | ExtrudingMaterial

record lineSegments =
  positions :: "num list"
  material :: material
  layer_index :: nat

definition addObject :: "num list \<Rightarrow> material \<Rightarrow> nat \<Rightarrow> lineSegments list \<Rightarrow> lineSegments list" where
  "addObject vtx mat i object = object @ [\<lparr>positions = vtx, material = mat, layer_index = i\<rparr>]"

text \<open>The loop of the branch \<^verbatim>\<open>this.splitLayer\<close>, from layer \<open>i\<close> on.\<close>

fun split_loop :: "nat \<Rightarrow> layer list \<Rightarrow> lineSegments list \<Rightarrow> lineSegments list" where
  "split_loop i [] object = object"
| "split_loop i (l # ls) object =
     split_loop (Suc i) ls
       (addObject (supportVertex l) SupportMaterial i
         (addObject (pathVertex l) PathMaterial i
           (addObject (vertex l) ExtrudingMaterial i object)))"

text \<open>In the other branch the inner \<^verbatim>\<open>for\<close> statements push the elements of a layer's array one by one.\<close>

definition push_all :: "num list \<Rightarrow> num list \<Rightarrow> num list" where
  "push_all acc xs = foldl (\<lambda>a v. a @ [v]) acc xs"

fun flatten_loop :: "layer list \<Rightarrow> num list \<times> num list \<times> num list \<Rightarrow> num list \<times> num list \<times> num list" where
  "flatten_loop [] acc = acc"
| "flatten_loop (l # ls) (v, p, s) =
     flatten_loop ls (push_all v (vertex l), push_all p (pathVertex l), push_all s (supportVertex l))"

definition build_object :: "bool \<Rightarrow> layer list \<Rightarrow> lineSegments list" where
  "build_object split ls =
    (if split then split_loop 0 ls []
     else (case flatten_loop ls ([], [], []) of
             (v, p, s) \<Rightarrow>
               addObject s SupportMaterial (length ls)
                 (addObject p PathMaterial (length ls)
                   (addObject v ExtrudingMaterial (length ls) []))))"

text \<open>The loader object and its constructor.\<close>

record loader =
  splitLayer :: bool

definition new_GCodeLoaderLayer :: loader where
  "new_GCodeLoaderLayer = \<lparr>splitLayer = True\<rparr>"

text \<open>\<^verbatim>\<open>parse\<close>: it reads and writes the module variable \<^verbatim>\<open>tcode\<close>, so the variable is
  an argument and a result.\<close>

definition parse :: "loader \<Rightarrow> nat \<Rightarrow> string \<Rightarrow> nat \<times> lineSegments list" where
  "parse this tc data =
    (let ps = interpret_text tc data
     in (tcode ps, build_object (splitLayer this) (layers ps)))"

section \<open>Rounding is exact on small integers\<close>

lemma round_even_of_int: "round_even (of_int k) = k"
  by (simp add: round_even_def)

lemma ilog2_of_nat:
  assumes "0 < n"
  shows "ilog2 (of_nat n) = int (floorlog 2 n) - 1"
proof -
  have q: "quotient_of (of_nat n) = (int n, 1)"
    using quotient_of_int [of "int n"] by simp
  have one: "floorlog 2 (Suc 0) = 1"
    by (simp add: compute_floorlog)
  have pos: "0 < floorlog 2 n"
    using assms floorlog_eq_zero_iff [of 2 n] by auto
  have "2 ^ (floorlog 2 n - 1) \<le> n"
    using floorlog_bounds [of n 2] assms by simp
  then have "(2::rat) ^ (floorlog 2 n - 1) \<le> of_nat n"
    by (metis of_nat_le_iff of_nat_numeral of_nat_power)
  moreover have "nat (int (floorlog 2 n) - 1) = floorlog 2 n - 1"
    using pos by simp
  ultimately have "ipow 2 (int (floorlog 2 n) - 1) \<le> of_nat n"
    using pos by (simp add: ipow_def)
  then show ?thesis
    by (simp add: ilog2_def q one)
qed

lemma rnd_of_nat:
  assumes "0 < n" and "n < 2 ^ 53"
  shows "rnd (of_nat n) = Fin (of_nat n)"
proof -
  define fl where "fl = floorlog 2 n"
  have fl_le: "fl \<le> 53"
    unfolding fl_def using assms(2) by (simp add: floorlog_le_iff)
  have fl_pos: "0 < fl"
    unfolding fl_def using assms(1) floorlog_eq_zero_iff [of 2 n] by auto
  define k where "k = 53 - fl"
  have ue: "max (ilog2 (of_nat n)) (- 1022) - 52 = - int k"
    using fl_le fl_pos by (simp add: ilog2_of_nat [OF assms(1)] fl_def [symmetric] k_def)
  have ip: "ipow 2 (- int k) = 1 / 2 ^ k"
    by (simp add: ipow_def)
  have quo: "(of_nat n :: rat) / ipow 2 (- int k) = of_int (int n * 2 ^ k)"
    by (simp add: ip)
  have scaled: "(of_int (int n * 2 ^ k) :: rat) * ipow 2 (- int k) = of_nat n"
    by (simp add: ip)
  have "(of_nat n :: rat) < of_nat (2 ^ 53)"
    using assms(2) by (simp only: of_nat_less_iff)
  also have "\<dots> \<le> 2 ^ 1024" by simp
  finally have small: "\<not> (2::rat) ^ 1024 \<le> of_nat n" by simp
  have nz: "int n * 2 ^ k \<noteq> 0" using assms(1) by simp
  have ip1024: "ipow 2 1024 = 2 ^ 1024" by (simp add: ipow_def)
  show ?thesis
    using assms(1) small nz
    by (simp add: rnd_def Let_def ue quo round_even_of_int scaled ip1024
          del: of_int_mult of_int_power)
qed

lemma rnd_minus: "q \<noteq> 0 \<Longrightarrow> rnd q = Fin r \<Longrightarrow> r \<noteq> 0 \<Longrightarrow> rnd (- q) = Fin (- r)"
  by (auto simp: rnd_def Let_def split: if_splits)

lemma rnd_of_int:
  assumes "\<bar>i\<bar> < 2 ^ 53"
  shows "rnd (of_int i) = Fin (of_int i)"
proof (cases "i = 0")
  case True
  then show ?thesis by (simp add: rnd_def)
next
  case False
  define n where "n = nat \<bar>i\<bar>"
  have n: "0 < n" "n < 2 ^ 53"
    using False assms by (simp_all add: n_def nat_less_iff)
  have abs: "(of_nat n :: rat) = of_int \<bar>i\<bar>" by (simp add: n_def)
  show ?thesis
  proof (cases "0 < i")
    case True
    then show ?thesis using rnd_of_nat [OF n] abs by simp
  next
    case neg: False
    have "rnd (- of_nat n) = Fin (- of_nat n)"
      using rnd_minus [OF _ rnd_of_nat [OF n]] n(1) by simp
    then show ?thesis using neg False abs by simp
  qed
qed

lemma rnd_numeral [simp]:
  "numeral w < (2 ^ 53 :: int) \<Longrightarrow> rnd (numeral w) = Fin (numeral w)"
  "numeral w < (2 ^ 53 :: int) \<Longrightarrow> rnd (- numeral w) = Fin (- numeral w)"
  using rnd_of_int [of "numeral w"] rnd_of_int [of "- numeral w"] by simp_all

lemma rnd_one [simp]: "rnd 1 = Fin 1" "rnd (- 1) = Fin (- 1)"
  using rnd_of_int [of 1] rnd_of_int [of "- 1"] by simp_all

lemma rnd_zero [simp]: "rnd 0 = Fin 0"
  by (simp add: rnd_def)

lemma floor_numeral_div: "\<lfloor>numeral a / numeral b :: rat\<rfloor> = numeral a div numeral b"
  using floor_divide_of_int_eq [of "numeral a" "numeral b", where ?'a = rat] by simp

section \<open>Evaluating the loader on a given text\<close>

lemmas text_eval = source_lines_def is_line_terminator_def tool_markers_def command_code_def
  toUpperCase_def toUpperCase_unit_def toLowerCase_char_def line_args_def parse_args_def
  parseFloat_def is_white_space_def is_digit_def digits_value_def exponent_part_def ipow_def

lemmas step_eval = process_line_def exec_command_def linear_move_def layer_change_def
  addSegment_def newLayer_def make_line_def delta_def absolute_def fsub_def set_position_def
  extrusion_delta_def

lemma args_G1_X10_E1:
  "line_args ''G1 X10 E1'' = [CHR ''x'' \<mapsto> Fin 10, CHR ''e'' \<mapsto> Fin 1]"
  by (simp add: text_eval)

lemma args_G1_X20:
  "line_args ''G1 X20'' = [CHR ''x'' \<mapsto> Fin 20]"
  by (simp add: text_eval)

lemma args_G1_Z2_E1:
  "line_args ''G1 Z2 E1'' = [CHR ''z'' \<mapsto> Fin 2, CHR ''e'' \<mapsto> Fin 1]"
  by (simp add: text_eval)

lemma args_G1_X5_E2:
  "line_args ''G1 X5 E2'' = [CHR ''x'' \<mapsto> Fin 5, CHR ''e'' \<mapsto> Fin 2]"
  by (simp add: text_eval)

lemma args_G1_X20_Z5:
  "line_args ''G1 X20 Z5'' = [CHR ''x'' \<mapsto> Fin 20, CHR ''z'' \<mapsto> Fin 5]"
  by (simp add: text_eval)

lemma args_G1_X1_Em1:
  "line_args ''G1 X1 E-1'' = [CHR ''x'' \<mapsto> Fin 1, CHR ''e'' \<mapsto> Fin (- 1)]"
  "command_code ''G1 X1 E-1'' = ''G1''" "tool_markers ''G1 X1 E-1'' tc = tc"
  by (simp_all add: text_eval)

lemma args_G1_X1:
  "line_args ''G1 X1'' = [CHR ''x'' \<mapsto> Fin 1]"
  by (simp add: text_eval)

lemma args_G1_X2: "line_args ''G1 X2'' = [CHR ''x'' \<mapsto> Fin 2]"
  by (simp add: text_eval)

lemma args_G92_big: "line_args ''G92 X9007199254740991'' = [CHR ''x'' \<mapsto> Fin 9007199254740991]"
  by (simp add: text_eval)

lemma step_G1_X10_E1:
  "process_line (initial_pstate 0) ''G1 X10 E1'' =
   \<lparr>state = \<lparr>sx = Fin 10, sy = Fin 0, sz = Fin 0, se = Fin 1, sf = Fin 0,
              extruding = None, relative = None\<rparr>,
    layers = [\<lparr>vertex = [], pathVertex = [],
               supportVertex = [Fin 0, Fin 0, Fin 0, Fin 10, Fin 0, Fin 0], lz = Fin 0\<rparr>],
    currentLayer = Some 0, tcode = 0\<rparr>"
  by (simp add: text_eval step_eval initial_pstate_def initial_state_def Let_def)

lemma step_G1_X20:
  "process_line
   \<lparr>state = \<lparr>sx = Fin 10, sy = Fin 0, sz = Fin 0, se = Fin 1, sf = Fin 0,
              extruding = None, relative = None\<rparr>,
    layers = [\<lparr>vertex = [], pathVertex = [],
               supportVertex = [Fin 0, Fin 0, Fin 0, Fin 10, Fin 0, Fin 0], lz = Fin 0\<rparr>],
    currentLayer = Some 0, tcode = 0\<rparr> ''G1 X20'' =
   \<lparr>state = \<lparr>sx = Fin 20, sy = Fin 0, sz = Fin 0, se = Fin 1, sf = Fin 0,
              extruding = None, relative = None\<rparr>,
    layers = [\<lparr>vertex = [], pathVertex = [Fin 10, Fin 0, Fin 0, Fin 20, Fin 0, Fin 0],
               supportVertex = [Fin 0, Fin 0, Fin 0, Fin 10, Fin 0, Fin 0], lz = Fin 0\<rparr>],
    currentLayer = Some 0, tcode = 0\<rparr>"
  by (simp add: text_eval step_eval Let_def)

lemma step_G1_X10_E1_tool1:
  "process_line (initial_pstate 1) ''G1 X10 E1'' =
   \<lparr>state = \<lparr>sx = Fin (- 12), sy = Fin 0, sz = Fin 0, se = Fin 1, sf = Fin 0,
              extruding = None, relative = None\<rparr>,
    layers = [\<lparr>vertex = [Fin 0, Fin 0, Fin 0, Fin (- 12), Fin 0, Fin 0], pathVertex = [],
               supportVertex = [], lz = Fin 0\<rparr>],
    currentLayer = Some 0, tcode = 1\<rparr>"
  by (simp add: text_eval step_eval initial_pstate_def initial_state_def Let_def)

lemma step_G1_Z2_E1:
  "process_line (initial_pstate 0) ''G1 Z2 E1'' =
   \<lparr>state = \<lparr>sx = Fin 0, sy = Fin 0, sz = Fin 2, se = Fin 1, sf = Fin 0,
              extruding = None, relative = None\<rparr>,
    layers = [\<lparr>vertex = [], pathVertex = [],
               supportVertex = [Fin 0, Fin 0, Fin 0, Fin 0, Fin 0, Fin 2], lz = Fin 2\<rparr>],
    currentLayer = Some 0, tcode = 0\<rparr>"
  by (simp add: text_eval step_eval initial_pstate_def initial_state_def Let_def)

lemma step_G1_E5:
  "process_line (initial_pstate 0) ''G1 E5'' =
   \<lparr>state = \<lparr>sx = Fin 0, sy = Fin 0, sz = Fin 0, se = Fin 5, sf = Fin 0,
              extruding = None, relative = None\<rparr>,
    layers = [\<lparr>vertex = [], pathVertex = [],
               supportVertex = [Fin 0, Fin 0, Fin 0, Fin 0, Fin 0, Fin 0], lz = Fin 0\<rparr>],
    currentLayer = Some 0, tcode = 0\<rparr>"
  by (simp add: text_eval step_eval initial_pstate_def initial_state_def Let_def)

lemma step_G91:
  "process_line ps ''G91'' = ps\<lparr>state := (state ps)\<lparr>relative := Some True\<rparr>\<rparr>"
  by (simp add: text_eval process_line_def exec_command_def)

lemma step_T1: "process_line ps ''T1'' = ps\<lparr>tcode := 1\<rparr>"
  by (simp add: text_eval process_line_def exec_command_def)

section \<open>The layer aggregator\<close>

lemma push_all_append: "push_all acc xs = acc @ xs"
  unfolding push_all_def by (induction xs arbitrary: acc) simp_all

lemma flatten_loop_concat:
  "flatten_loop ls (v, p, s) =
     (v @ concat (map vertex ls), p @ concat (map pathVertex ls), s @ concat (map supportVertex ls))"
  by (induction ls arbitrary: v p s) (simp_all add: push_all_append)

lemma split_loop_append: "split_loop i ls obj = obj @ split_loop i ls []"
proof (induction ls arbitrary: i obj)
  case Nil
  show ?case by simp
next
  case (Cons l ls)
  let ?three = "[\<lparr>positions = vertex l, material = ExtrudingMaterial, layer_index = i\<rparr>,
      \<lparr>positions = pathVertex l, material = PathMaterial, layer_index = i\<rparr>,
      \<lparr>positions = supportVertex l, material = SupportMaterial, layer_index = i\<rparr>]"
  have "split_loop i (l # ls) obj = split_loop (Suc i) ls (obj @ ?three)"
    by (simp add: addObject_def)
  also have "\<dots> = (obj @ ?three) @ split_loop (Suc i) ls []"
    by (rule Cons.IH)
  also have "\<dots> = obj @ split_loop (Suc i) ls ?three"
    using Cons.IH [of "Suc i" ?three] by simp
  also have "\<dots> = obj @ split_loop i (l # ls) []"
    by (simp add: addObject_def)
  finally show ?case .
qed

lemma split_loop_Cons:
  "split_loop i (l # ls) [] =
     [\<lparr>positions = vertex l, material = ExtrudingMaterial, layer_index = i\<rparr>,
      \<lparr>positions = pathVertex l, material = PathMaterial, layer_index = i\<rparr>,
      \<lparr>positions = supportVertex l, material = SupportMaterial, layer_index = i\<rparr>]
     @ split_loop (Suc i) ls []"
  by (subst split_loop.simps, subst split_loop_append) (simp add: addObject_def)

lemma split_loop_by_material:
  "concat (map positions (filter (\<lambda>ob. material ob = ExtrudingMaterial) (split_loop i ls [])))
     = concat (map vertex ls)"
  "concat (map positions (filter (\<lambda>ob. material ob = PathMaterial) (split_loop i ls [])))
     = concat (map pathVertex ls)"
  "concat (map positions (filter (\<lambda>ob. material ob = SupportMaterial) (split_loop i ls [])))
     = concat (map supportVertex ls)"
  by (induction ls arbitrary: i) (simp_all add: split_loop_Cons del: split_loop.simps(2))

lemma split_loop_positions:
  "map positions (split_loop i ls []) =
     concat (map (\<lambda>l. [vertex l, pathVertex l, supportVertex l]) ls)"
  by (induction ls arbitrary: i) (simp_all add: split_loop_Cons del: split_loop.simps(2))

text \<open>
  Claim C6. In flattened mode (\<^verbatim>\<open>splitLayer\<close> false) the output is three objects, numbered
  with the count of layers: the extruded, the travel and the support coordinates, each the
  concatenation, in layer order, of the arrays that the layer-preserving output holds under
  the same material. The layer-preserving output holds every layer's three arrays as they
  are, and it is what the constructor selects: \<^verbatim>\<open>splitLayer\<close> starts as true.
\<close>

theorem C6_flattened_is_concatenation_of_layers:
  "build_object False ls =
     [\<lparr>positions = concat (map positions
         (filter (\<lambda>ob. material ob = ExtrudingMaterial) (build_object True ls))),
       material = ExtrudingMaterial, layer_index = length ls\<rparr>,
      \<lparr>positions = concat (map positions
         (filter (\<lambda>ob. material ob = PathMaterial) (build_object True ls))),
       material = PathMaterial, layer_index = length ls\<rparr>,
      \<lparr>positions = concat (map positions
         (filter (\<lambda>ob. material ob = SupportMaterial) (build_object True ls))),
       material = SupportMaterial, layer_index = length ls\<rparr>]
   \<and> map positions (build_object True ls)
       = concat (map (\<lambda>l. [vertex l, pathVertex l, supportVertex l]) ls)
   \<and> splitLayer new_GCodeLoaderLayer = True
   \<and> snd (parse new_GCodeLoaderLayer tc data)
       = build_object True (layers (interpret_text tc data))"
  by (simp add: build_object_def flatten_loop_concat split_loop_by_material split_loop_positions
        addObject_def new_GCodeLoaderLayer_def parse_def Let_def)

section \<open>Lines that move nothing\<close>

lemma js_split_not_Nil: "js_split sep s \<noteq> []"
  by (induction s) (simp_all split: list.splits)

lemma process_line_other:
  assumes "command_code line \<notin> {''G0'', ''G1'', ''G90'', ''G91'', ''G92''}"
  shows "process_line ps line = ps\<lparr>tcode := tool_markers line (tcode ps)\<rparr>"
  using assms by (simp add: process_line_def exec_command_def)

lemma tool_markers_cases:
  "tool_markers line tc =
     (if js_includes line ''T0'' then 0 else if js_includes line ''T1'' then 1 else tc)"
  by (simp add: tool_markers_def)

text \<open>
  Claim C5 says that a line whose command code is G2 or G3 leaves the active tool index
  unchanged. The tool markers are looked for in the whole line before its command is read,
  so the line \<^verbatim>\<open>G2 T1\<close> selects tool 1.
\<close>

theorem C5_arc_line_with_tool_marker:
  "command_code ''G2 T1'' = ''G2'' \<and> tcode (initial_pstate 0) = 0
   \<and> tcode (process_line (initial_pstate 0) ''G2 T1'') = 1"
  by (simp add: text_eval step_eval initial_pstate_def)

text \<open>
  Claim C5, amended. A line whose command code is G2 or G3 emits no segment, creates no layer
  (\<open>layers\<close> and \<open>currentLayer\<close> are unchanged) and leaves the state object, with all of
  x, y, z, e, f, extruding and relative, unchanged. The active tool index is unchanged
  unless the line contains a tool marker: with \<^verbatim>\<open>T0\<close> in the line it becomes 0,
  otherwise with \<^verbatim>\<open>T1\<close> in the line it becomes 1.
\<close>

theorem C5_arc_line_keeps_state_and_layers:
  assumes "command_code line = ''G2'' \<or> command_code line = ''G3''"
  shows "state (process_line ps line) = state ps
       \<and> layers (process_line ps line) = layers ps
       \<and> currentLayer (process_line ps line) = currentLayer ps
       \<and> tcode (process_line ps line) =
           (if js_includes line ''T0'' then 0 else if js_includes line ''T1'' then 1 else tcode ps)"
proof -
  have "command_code line \<notin> {''G0'', ''G1'', ''G90'', ''G91'', ''G92''}"
    using assms by auto
  then show ?thesis
    by (simp add: process_line_other tool_markers_cases)
qed

theorem C5_arc_line_witness:
  "(command_code ''G3 X1 Y2 I5'' = ''G2'' \<or> command_code ''G3 X1 Y2 I5'' = ''G3'')
   \<and> process_line (initial_pstate 1) ''G3 X1 Y2 I5'' = initial_pstate 1"
proof -
  have h: "command_code ''G3 X1 Y2 I5'' = ''G2'' \<or> command_code ''G3 X1 Y2 I5'' = ''G3''"
    by (simp add: text_eval)
  have "process_line (initial_pstate 1) ''G3 X1 Y2 I5''
        = (initial_pstate 1)\<lparr>tcode := tcode (process_line (initial_pstate 1) ''G3 X1 Y2 I5'')\<rparr>"
    using C5_arc_line_keeps_state_and_layers [OF h, of "initial_pstate 1"]
    by (intro pstate.equality) simp_all
  moreover have "tcode (process_line (initial_pstate 1) ''G3 X1 Y2 I5'') = 1"
    using C5_arc_line_keeps_state_and_layers [OF h, of "initial_pstate 1"]
    by (simp add: initial_pstate_def)
  ultimately show ?thesis using h by (simp add: initial_pstate_def)
qed

text \<open>
  Claim C7 says that a line whose command code is none of G0, G1, G2, G3, G90, G91, G92
  leaves the active tool index unchanged. The line \<^verbatim>\<open>T1\<close> is such a line, and it
  selects tool 1.
\<close>

theorem C7_tool_select_line:
  "command_code ''T1'' \<notin> {''G0'', ''G1'', ''G2'', ''G3'', ''G90'', ''G91'', ''G92''}
   \<and> tcode (initial_pstate 0) = 0
   \<and> tcode (process_line (initial_pstate 0) ''T1'') = 1"
  by (simp add: text_eval step_eval initial_pstate_def)

text \<open>
  Claim C7, amended. A line whose command code is none of G0, G1, G2, G3, G90, G91, G92 is
  processed without an error (the line always has a first token, and no other operation of
  the loop body can throw), emits no segment, creates no layer and leaves the state object
  unchanged. The active tool index is unchanged unless the line contains a tool marker:
  with \<^verbatim>\<open>T0\<close> in the line it becomes 0, otherwise with \<^verbatim>\<open>T1\<close> in the line it
  becomes 1.
\<close>

theorem C7_other_line_keeps_state_and_layers:
  assumes "command_code line \<notin> {''G0'', ''G1'', ''G2'', ''G3'', ''G90'', ''G91'', ''G92''}"
  shows "js_split CHR '' '' line \<noteq> []
       \<and> state (process_line ps line) = state ps
       \<and> layers (process_line ps line) = layers ps
       \<and> currentLayer (process_line ps line) = currentLayer ps
       \<and> tcode (process_line ps line) =
           (if js_includes line ''T0'' then 0 else if js_includes line ''T1'' then 1 else tcode ps)"
proof -
  have "command_code line \<notin> {''G0'', ''G1'', ''G90'', ''G91'', ''G92''}"
    using assms by auto
  then show ?thesis
    by (simp add: process_line_other tool_markers_cases js_split_not_Nil)
qed

theorem C7_other_line_witness:
  "command_code ''M104 S200'' \<notin> {''G0'', ''G1'', ''G2'', ''G3'', ''G90'', ''G91'', ''G92''}
   \<and> process_line (initial_pstate 1) ''M104 S200'' = initial_pstate 1"
proof -
  have h: "command_code ''M104 S200'' \<notin> {''G0'', ''G1'', ''G2'', ''G3'', ''G90'', ''G91'', ''G92''}"
    by (simp add: text_eval)
  have "process_line (initial_pstate 1) ''M104 S200''
        = (initial_pstate 1)\<lparr>tcode := tcode (process_line (initial_pstate 1) ''M104 S200'')\<rparr>"
    using C7_other_line_keeps_state_and_layers [OF h, of "initial_pstate 1"]
    by (intro pstate.equality) simp_all
  moreover have "tcode (process_line (initial_pstate 1) ''M104 S200'') = 1"
    using C7_other_line_keeps_state_and_layers [OF h, of "initial_pstate 1"]
    by (simp add: initial_pstate_def)
  ultimately show ?thesis using h by (simp add: initial_pstate_def)
qed

section \<open>Linear moves\<close>

lemma cur_ok_newLayer: "cur_ok (newLayer l ps)"
  by (simp add: cur_ok_def newLayer_def)

lemma cur_ok_flag: "cur_ok (ps\<lparr>state := st\<rparr>) = cur_ok ps"
  by (simp add: cur_ok_def split: option.splits)

lemma cur_ok_layer_change: "cur_ok ps \<Longrightarrow> cur_ok (layer_change line ps)"
  by (simp add: layer_change_def Let_def cur_ok_newLayer cur_ok_flag)

lemma cur_ok_addSegment: "cur_ok ps \<Longrightarrow> cur_ok (addSegment p1 p2 tc ps)"
  by (auto simp: addSegment_def Let_def cur_ok_def newLayer_def split: option.splits)

lemma cur_ok_linear_move: "cur_ok ps \<Longrightarrow> cur_ok (linear_move a ps)"
  by (simp add: linear_move_def Let_def cur_ok_flag cur_ok_addSegment cur_ok_layer_change)

lemma cur_ok_exec_command: "cur_ok ps \<Longrightarrow> cur_ok (exec_command cmd a ps)"
  by (simp add: exec_command_def cur_ok_linear_move cur_ok_flag set_position_def Let_def)

lemma cur_ok_tcode: "cur_ok (ps\<lparr>tcode := tc\<rparr>) = cur_ok ps"
  by (simp add: cur_ok_def split: option.splits)

lemma cur_ok_process_line: "cur_ok ps \<Longrightarrow> cur_ok (process_line ps line)"
  by (simp add: process_line_def cur_ok_exec_command cur_ok_tcode)

lemma cur_ok_foldl: "cur_ok ps \<Longrightarrow> cur_ok (foldl process_line ps ls)"
  by (induction ls arbitrary: ps) (simp_all add: cur_ok_process_line)

lemma cur_ok_initial: "cur_ok (initial_pstate tc)"
  by (simp add: cur_ok_def initial_pstate_def)

lemma exec_linear: "cmd = ''G0'' \<or> cmd = ''G1'' \<Longrightarrow> exec_command cmd a ps = linear_move a ps"
  by (auto simp: exec_command_def)

lemma state_linear_move: "state (linear_move a ps) = make_line (tcode ps) a (state ps)"
  by (simp add: linear_move_def Let_def)

text \<open>The layers after the two steps of a move, in the cases of the source.\<close>

lemma move_layers:
  fixes line :: mstate and tc :: nat and ps :: pstate
  assumes ok: "cur_ok ps"
  defines "d \<equiv> delta (state ps) (se (state ps)) (se line)"
  defines "seg \<equiv> [sx (state ps), sy (state ps), sz (state ps), sx line, sy line, sz line]"
    and "flag \<equiv> gt0 d \<or> extruding (state ps) = Some True"
  defines "put \<equiv> \<lambda>l. if flag \<and> tc = 1 then l\<lparr>vertex := vertex l @ seg\<rparr>
                     else if flag \<and> tc = 0 then l\<lparr>supportVertex := supportVertex l @ seg\<rparr>
                     else l\<lparr>pathVertex := pathVertex l @ seg\<rparr>"
  defines "fresh \<equiv> \<lambda>z. \<lparr>vertex = [], pathVertex = [], supportVertex = [], lz = z\<rparr>"
  defines "ps2 \<equiv> addSegment (state (layer_change line ps)) line tc (layer_change line ps)"
  shows "gt0 d \<Longrightarrow> currentLayer ps = None \<Longrightarrow>
           layers ps2 = layers ps @ [put (fresh (sz line))]
           \<and> currentLayer ps2 = Some (length (layers ps))"
    and "gt0 d \<Longrightarrow> currentLayer ps = Some i \<Longrightarrow> js_ne (sz line) (lz (layers ps ! i)) \<Longrightarrow>
           layers ps2 = layers ps @ [put (fresh (sz line))]
           \<and> currentLayer ps2 = Some (length (layers ps))"
    and "gt0 d \<Longrightarrow> currentLayer ps = Some i \<Longrightarrow> \<not> js_ne (sz line) (lz (layers ps ! i)) \<Longrightarrow>
           layers ps2 = (layers ps)[i := put (layers ps ! i)]
           \<and> currentLayer ps2 = Some i"
    and "\<not> gt0 d \<Longrightarrow> currentLayer ps = None \<Longrightarrow>
           layers ps2 = layers ps @ [put (fresh (sz (state ps)))]
           \<and> currentLayer ps2 = Some (length (layers ps))"
    and "\<not> gt0 d \<Longrightarrow> currentLayer ps = Some i \<Longrightarrow>
           layers ps2 = (layers ps)[i := put (layers ps ! i)]
           \<and> currentLayer ps2 = Some i"
  using ok
  unfolding d_def seg_def flag_def put_def fresh_def ps2_def
  by (simp_all add: layer_change_def addSegment_def newLayer_def Let_def cur_ok_def)

lemma segment_classified:
  fixes line :: mstate and tc :: nat and ps :: pstate
  assumes ok: "cur_ok ps"
  defines "d \<equiv> delta (state ps) (se (state ps)) (se line)"
  defines "seg \<equiv> [sx (state ps), sy (state ps), sz (state ps), sx line, sy line, sz line]"
    and "flag \<equiv> gt0 d \<or> extruding (state ps) = Some True"
  defines "ps2 \<equiv> addSegment (state (layer_change line ps)) line tc (layer_change line ps)"
  shows "\<exists>i. currentLayer ps2 = Some i \<and> i < length (layers ps2)
     \<and> (\<forall>j < length (layers ps2). j \<noteq> i \<longrightarrow> j < length (layers ps) \<and> layers ps2 ! j = layers ps ! j)
     \<and> vertex (layers ps2 ! i) =
          (if i < length (layers ps) then vertex (layers ps ! i) else [])
          @ (if flag \<and> tc = 1 then seg else [])
     \<and> supportVertex (layers ps2 ! i) =
          (if i < length (layers ps) then supportVertex (layers ps ! i) else [])
          @ (if flag \<and> tc = 0 then seg else [])
     \<and> pathVertex (layers ps2 ! i) =
          (if i < length (layers ps) then pathVertex (layers ps ! i) else [])
          @ (if flag \<and> (tc = 1 \<or> tc = 0) then [] else seg)"
proof -
  note ml = move_layers [OF ok, where line = line and tc = tc, folded d_def seg_def flag_def ps2_def]
  show ?thesis
  proof (cases "currentLayer ps")
    case None
    show ?thesis
    proof (cases "gt0 d")
      case True
      from ml(1) [OF True None] show ?thesis
        by (auto simp: nth_append flag_def)
    next
      case False
      from ml(4) [OF False None] show ?thesis
        by (auto simp: nth_append flag_def)
    qed
  next
    case (Some i)
    then have i: "i < length (layers ps)" using ok by (simp add: cur_ok_def)
    show ?thesis
    proof (cases "gt0 d")
      case gt: True
      show ?thesis
      proof (cases "js_ne (sz line) (lz (layers ps ! i))")
        case True
        from ml(2) [OF gt Some True] show ?thesis
          by (auto simp: nth_append flag_def)
      next
        case False
        from ml(3) [OF gt Some False] i show ?thesis
          by (auto simp: nth_list_update flag_def)
      qed
    next
      case False
      from ml(5) [OF False Some] i show ?thesis
        by (auto simp: nth_list_update flag_def)
    qed
  qed
qed

lemma layer_change_tcode: "tcode (layer_change line ps) = tcode ps"
  by (simp add: layer_change_def newLayer_def Let_def)

lemma linear_move_parts:
  "layers (linear_move a ps) =
     layers (addSegment (state (layer_change (make_line (tcode ps) a (state ps)) ps))
               (make_line (tcode ps) a (state ps)) (tcode ps)
               (layer_change (make_line (tcode ps) a (state ps)) ps))"
  "currentLayer (linear_move a ps) =
     currentLayer (addSegment (state (layer_change (make_line (tcode ps) a (state ps)) ps))
               (make_line (tcode ps) a (state ps)) (tcode ps)
               (layer_change (make_line (tcode ps) a (state ps)) ps))"
  by (simp_all add: linear_move_def Let_def layer_change_tcode)

text \<open>
  Claim C2. A G0/G1 command appends one segment, the coordinates of the previous position
  followed by those of the target, to exactly one list of the layer that is current after the
  command. That layer is an earlier layer with its earlier contents, or a layer just created
  with three empty lists. The list is \<open>vertex\<close> (extruded) when the extruding flag is true
  and the tool is 1, \<open>supportVertex\<close> when the flag is true and the tool is 0, and
  \<open>pathVertex\<close> (travel) in every other case; the flag is true at that moment when the
  command's extrusion delta is positive or the state object already carried a true flag. No
  other layer changes.
\<close>

theorem C2_segment_classification:
  fixes cmd :: string and a :: args and ps :: pstate
  assumes cmd: "cmd = ''G0'' \<or> cmd = ''G1''" and ok: "cur_ok ps"
  defines "line \<equiv> make_line (tcode ps) a (state ps)"
  defines "seg \<equiv> [sx (state ps), sy (state ps), sz (state ps), sx line, sy line, sz line]"
    and "flag \<equiv> gt0 (extrusion_delta a ps) \<or> extruding (state ps) = Some True"
    and "ps' \<equiv> exec_command cmd a ps"
  shows "\<exists>i. currentLayer ps' = Some i \<and> i < length (layers ps')
     \<and> (\<forall>j < length (layers ps'). j \<noteq> i \<longrightarrow> j < length (layers ps) \<and> layers ps' ! j = layers ps ! j)
     \<and> vertex (layers ps' ! i) =
          (if i < length (layers ps) then vertex (layers ps ! i) else [])
          @ (if flag \<and> tcode ps = 1 then seg else [])
     \<and> supportVertex (layers ps' ! i) =
          (if i < length (layers ps) then supportVertex (layers ps ! i) else [])
          @ (if flag \<and> tcode ps = 0 then seg else [])
     \<and> pathVertex (layers ps' ! i) =
          (if i < length (layers ps) then pathVertex (layers ps ! i) else [])
          @ (if flag \<and> (tcode ps = 1 \<or> tcode ps = 0) then [] else seg)"
  using segment_classified [OF ok, of line "tcode ps"]
  unfolding ps'_def exec_linear [OF cmd] linear_move_parts flag_def seg_def extrusion_delta_def line_def
  by simp

theorem C2_segment_classification_witness:
  "(''G1'' = ''G0'' \<or> ''G1'' = ''G1'') \<and> cur_ok (initial_pstate 1)
   \<and> (\<exists>i. currentLayer (exec_command ''G1'' (line_args ''G1 X10 E1'') (initial_pstate 1)) = Some i
          \<and> vertex (layers (exec_command ''G1'' (line_args ''G1 X10 E1'') (initial_pstate 1)) ! i)
              = [Fin 0, Fin 0, Fin 0, Fin (- 12), Fin 0, Fin 0]
          \<and> supportVertex (layers (exec_command ''G1'' (line_args ''G1 X10 E1'') (initial_pstate 1)) ! i) = []
          \<and> pathVertex (layers (exec_command ''G1'' (line_args ''G1 X10 E1'') (initial_pstate 1)) ! i) = [])"
proof -
  have h1: "''G1'' = ''G0'' \<or> ''G1'' = ''G1''" by simp
  have h2: "cur_ok (initial_pstate 1)" by (simp add: cur_ok_def initial_pstate_def)
  have d: "gt0 (extrusion_delta (line_args ''G1 X10 E1'') (initial_pstate 1))"
    by (simp add: args_G1_X10_E1 extrusion_delta_def make_line_def delta_def absolute_def fsub_def
          initial_pstate_def initial_state_def)
  have x: "sx (make_line (Suc 0) (line_args ''G1 X10 E1'') initial_state) = Fin (- 12)"
          "sy (make_line (Suc 0) (line_args ''G1 X10 E1'') initial_state) = Fin 0"
          "sz (make_line (Suc 0) (line_args ''G1 X10 E1'') initial_state) = Fin 0"
    by (simp_all add: args_G1_X10_E1 make_line_def absolute_def fsub_def initial_state_def)
  have s: "state (initial_pstate 1) = initial_state" "tcode (initial_pstate 1) = 1"
          "layers (initial_pstate 1) = []"
    by (simp_all add: initial_pstate_def)
  have i0: "sx initial_state = Fin 0" "sy initial_state = Fin 0" "sz initial_state = Fin 0"
    by (simp_all add: initial_state_def)
  from C2_segment_classification [OF h1 h2, of "line_args ''G1 X10 E1''"] d
  have "\<exists>i. currentLayer (exec_command ''G1'' (line_args ''G1 X10 E1'') (initial_pstate 1)) = Some i
          \<and> vertex (layers (exec_command ''G1'' (line_args ''G1 X10 E1'') (initial_pstate 1)) ! i)
              = [Fin 0, Fin 0, Fin 0, Fin (- 12), Fin 0, Fin 0]
          \<and> supportVertex (layers (exec_command ''G1'' (line_args ''G1 X10 E1'') (initial_pstate 1)) ! i) = []
          \<and> pathVertex (layers (exec_command ''G1'' (line_args ''G1 X10 E1'') (initial_pstate 1)) ! i) = []"
    unfolding s by (auto simp: x i0)
  then show ?thesis
    using h2 by simp
qed

lemma put_lz:
  "lz (if c1 then l\<lparr>vertex := v\<rparr> else if c2 then l\<lparr>supportVertex := s\<rparr> else l\<lparr>pathVertex := p\<rparr>) = lz l"
  by simp

lemma map_lz_update: "i < length ls \<Longrightarrow> lz l' = lz (ls ! i) \<Longrightarrow> map lz (ls[i := l']) = map lz ls"
  by (simp add: map_update list_update_same_conv)

text \<open>The Z values of the layers after a move.\<close>

lemma linear_move_lz:
  fixes a :: args and ps :: pstate
  assumes ok: "cur_ok ps"
  defines "line \<equiv> make_line (tcode ps) a (state ps)"
  shows "map lz (layers (linear_move a ps)) =
    (if gt0 (extrusion_delta a ps) then
       (if (case currentLayer ps of None \<Rightarrow> False
            | Some i \<Rightarrow> \<not> js_ne (sz line) (lz (layers ps ! i)))
        then map lz (layers ps) else map lz (layers ps) @ [sz line])
     else if currentLayer ps = None then map lz (layers ps) @ [sz (state ps)]
     else map lz (layers ps))"
proof -
  note ml = move_layers [OF ok, where line = line and tc = "tcode ps"]
  have d: "delta (state ps) (se (state ps)) (se line) = extrusion_delta a ps"
    by (simp add: extrusion_delta_def line_def)
  show ?thesis
  proof (cases "currentLayer ps")
    case None
    show ?thesis
    proof (cases "gt0 (extrusion_delta a ps)")
      case True
      from ml(1) [unfolded d, OF True None] show ?thesis
        using True None by (simp add: linear_move_parts flip: line_def)
    next
      case False
      from ml(4) [unfolded d, OF False None] show ?thesis
        using False None by (simp add: linear_move_parts flip: line_def)
    qed
  next
    case (Some i)
    then have i: "i < length (layers ps)" using ok by (simp add: cur_ok_def)
    show ?thesis
    proof (cases "gt0 (extrusion_delta a ps)")
      case gt: True
      show ?thesis
      proof (cases "js_ne (sz line) (lz (layers ps ! i))")
        case True
        from ml(2) [unfolded d, OF gt Some True] show ?thesis
          using gt Some True by (simp add: linear_move_parts flip: line_def)
      next
        case False
        from ml(3) [unfolded d, OF gt Some False] show ?thesis
          using gt Some False i by (simp add: linear_move_parts map_lz_update flip: line_def)
      qed
    next
      case False
      from ml(5) [unfolded d, OF False Some] show ?thesis
        using False Some i by (simp add: linear_move_parts map_lz_update flip: line_def)
    qed
  qed
qed

lemma exec_command_lz_prefix:
  assumes "cur_ok ps"
  shows "prefix (map lz (layers ps)) (map lz (layers (exec_command cmd a ps)))"
  by (simp add: exec_command_def linear_move_lz [OF assms] set_position_def Let_def)

lemma process_line_lz_prefix:
  assumes "cur_ok ps"
  shows "prefix (map lz (layers ps)) (map lz (layers (process_line ps l)))"
  using exec_command_lz_prefix [of "ps\<lparr>tcode := tool_markers l (tcode ps)\<rparr>"] assms
  by (simp add: process_line_def cur_ok_tcode)

lemma foldl_lz_prefix:
  "cur_ok ps \<Longrightarrow> prefix (map lz (layers ps)) (map lz (layers (foldl process_line ps ls)))"
proof (induction ls arbitrary: ps)
  case Nil
  show ?case by simp
next
  case (Cons l ls)
  have "prefix (map lz (layers ps)) (map lz (layers (process_line ps l)))"
    by (rule process_line_lz_prefix [OF Cons.prems])
  also have "prefix \<dots> (map lz (layers (foldl process_line (process_line ps l) ls)))"
    by (rule Cons.IH [OF cur_ok_process_line [OF Cons.prems]])
  finally show ?case by simp
qed

lemma gt0_iff: "gt0 d \<longleftrightarrow> d = PInf \<or> (\<exists>q. d = Fin q \<and> 0 < q)"
  by (cases d) simp_all

lemma js_ne_iff:
  "js_ne u w \<longleftrightarrow>
     \<not> (u \<noteq> NaN \<and> w \<noteq> NaN
        \<and> (u = w \<or> (u = Fin 0 \<and> w = NegZero) \<or> (u = NegZero \<and> w = Fin 0)))"
  by (cases u; cases w) auto

lemma make_line_absolute:
  assumes "relative st \<noteq> Some True"
  shows "se (make_line tc a st) = (case a CHR ''e'' of Some v \<Rightarrow> v | None \<Rightarrow> se st)"
    and "sz (make_line tc a st) = (case a CHR ''z'' of Some v \<Rightarrow> v | None \<Rightarrow> sz st)"
  using assms by (simp_all add: make_line_def absolute_def split: option.splits)

lemma extrusion_delta_absolute_mode:
  assumes "relative (state ps) \<noteq> Some True"
  shows "extrusion_delta a ps =
           fsub (case a CHR ''e'' of Some v \<Rightarrow> v | None \<Rightarrow> se (state ps)) (se (state ps))"
  using assms by (simp add: extrusion_delta_def delta_def make_line_absolute)

lemma lines_C3:
  "source_lines ''G1 Z E1\<newline>G1 E2'' = [''G1 Z E1'', ''G1 E2'']"
  "source_lines ''G1 E1\<newline>G92 E-10\<newline>G91\<newline>G1 Z1 E1''
     = [''G1 E1'', ''G92 E-10'', ''G91'', ''G1 Z1 E1'']"
  by (simp_all add: text_eval)

lemma args_C3:
  "line_args ''G1 Z E1'' = [CHR ''z'' \<mapsto> NaN, CHR ''e'' \<mapsto> Fin 1]"
  "line_args ''G1 E2'' = [CHR ''e'' \<mapsto> Fin 2]"
  "line_args ''G1 Z1 E1'' = [CHR ''z'' \<mapsto> Fin 1, CHR ''e'' \<mapsto> Fin 1]"
  "line_args ''G1 X5 Z3 E2'' = [CHR ''x'' \<mapsto> Fin 5, CHR ''z'' \<mapsto> Fin 3, CHR ''e'' \<mapsto> Fin 2]"
  by (simp_all add: text_eval)

lemma step_G1_Z_E1:
  "process_line (initial_pstate 0) ''G1 Z E1'' =
   \<lparr>state = \<lparr>sx = Fin 0, sy = Fin 0, sz = NaN, se = Fin 1, sf = Fin 0,
              extruding = None, relative = None\<rparr>,
    layers = [\<lparr>vertex = [], pathVertex = [],
               supportVertex = [Fin 0, Fin 0, Fin 0, Fin 0, Fin 0, NaN], lz = NaN\<rparr>],
    currentLayer = Some 0, tcode = 0\<rparr>"
  by (simp add: text_eval step_eval initial_pstate_def initial_state_def Let_def)

lemma step_G1_E2_after_NaN:
  "process_line
   \<lparr>state = \<lparr>sx = Fin 0, sy = Fin 0, sz = NaN, se = Fin 1, sf = Fin 0,
              extruding = None, relative = None\<rparr>,
    layers = [\<lparr>vertex = [], pathVertex = [],
               supportVertex = [Fin 0, Fin 0, Fin 0, Fin 0, Fin 0, NaN], lz = NaN\<rparr>],
    currentLayer = Some 0, tcode = 0\<rparr> ''G1 E2'' =
   \<lparr>state = \<lparr>sx = Fin 0, sy = Fin 0, sz = NaN, se = Fin 2, sf = Fin 0,
              extruding = None, relative = None\<rparr>,
    layers = [\<lparr>vertex = [], pathVertex = [],
               supportVertex = [Fin 0, Fin 0, Fin 0, Fin 0, Fin 0, NaN], lz = NaN\<rparr>,
              \<lparr>vertex = [], pathVertex = [],
               supportVertex = [Fin 0, Fin 0, NaN, Fin 0, Fin 0, NaN], lz = NaN\<rparr>],
    currentLayer = Some 1, tcode = 0\<rparr>"
  by (simp add: text_eval step_eval Let_def)

lemma step_G1_E1:
  "process_line (initial_pstate 0) ''G1 E1'' =
   \<lparr>state = \<lparr>sx = Fin 0, sy = Fin 0, sz = Fin 0, se = Fin 1, sf = Fin 0,
              extruding = None, relative = None\<rparr>,
    layers = [\<lparr>vertex = [], pathVertex = [],
               supportVertex = [Fin 0, Fin 0, Fin 0, Fin 0, Fin 0, Fin 0], lz = Fin 0\<rparr>],
    currentLayer = Some 0, tcode = 0\<rparr>"
  by (simp add: text_eval step_eval initial_pstate_def initial_state_def Let_def)

lemma step_G92_Em10:
  "process_line ps ''G92 E-10'' = ps\<lparr>state := (state ps)\<lparr>se := Fin (- 10)\<rparr>\<rparr>"
  by (simp add: text_eval process_line_def exec_command_def set_position_def)

lemma state_before_relative_move:
  "foldl process_line (initial_pstate 0) [''G1 E1'', ''G92 E-10'', ''G91''] =
   \<lparr>state = \<lparr>sx = Fin 0, sy = Fin 0, sz = Fin 0, se = Fin (- 10), sf = Fin 0,
              extruding = None, relative = Some True\<rparr>,
    layers = [\<lparr>vertex = [], pathVertex = [],
               supportVertex = [Fin 0, Fin 0, Fin 0, Fin 0, Fin 0, Fin 0], lz = Fin 0\<rparr>],
    currentLayer = Some 0, tcode = 0\<rparr>"
  by (simp add: step_G1_E1 step_G92_Em10 step_G91)

lemma step_G1_Z1_E1_relative:
  "process_line
   \<lparr>state = \<lparr>sx = Fin 0, sy = Fin 0, sz = Fin 0, se = Fin (- 10), sf = Fin 0,
              extruding = None, relative = Some True\<rparr>,
    layers = [\<lparr>vertex = [], pathVertex = [],
               supportVertex = [Fin 0, Fin 0, Fin 0, Fin 0, Fin 0, Fin 0], lz = Fin 0\<rparr>],
    currentLayer = Some 0, tcode = 0\<rparr> ''G1 Z1 E1'' =
   \<lparr>state = \<lparr>sx = Fin 0, sy = Fin 0, sz = Fin 1, se = Fin (- 9), sf = Fin 0,
              extruding = None, relative = None\<rparr>,
    layers = [\<lparr>vertex = [], pathVertex = [Fin 0, Fin 0, Fin 0, Fin 0, Fin 0, Fin 1],
               supportVertex = [Fin 0, Fin 0, Fin 0, Fin 0, Fin 0, Fin 0], lz = Fin 0\<rparr>],
    currentLayer = Some 0, tcode = 0\<rparr>"
  by (simp add: text_eval step_eval Let_def)

text \<open>
  Claim C3 says that a G0/G1 command with a positive extrusion delta starts no layer when
  the target Z equals the current layer's Z and exactly one when it differs, the delta
  being the raw E parameter in relative mode. Two runs of the loader do otherwise. After
  \<^verbatim>\<open>G1 Z E1\<close>, whose Z parameter has no digits and is NaN, the command \<^verbatim>\<open>G1 E2\<close> has
  no Z parameter and raises E from 1 to 2: the target Z is the Z of the current layer, and a
  second layer is started, since NaN is different from itself under \<^verbatim>\<open>!=\<close>. After
  \<^verbatim>\<open>G1 E1\<close>, \<^verbatim>\<open>G92 E-10\<close>, \<^verbatim>\<open>G91\<close> the loader is in relative mode with one layer
  at Z 0; the command \<^verbatim>\<open>G1 Z1 E1\<close> has the raw E parameter 1 and the target Z 1, and no
  layer is started, since the value the loader tests is the new E, -9.
\<close>

theorem C3_unchanged_Z_and_relative_mode:
  "map lz (layers (interpret_text 0 ''G1 Z E1'')) = [NaN]
   \<and> sz (state (interpret_text 0 ''G1 Z E1'')) = NaN
   \<and> se (state (interpret_text 0 ''G1 Z E1'')) = Fin 1
   \<and> line_args ''G1 E2'' = [CHR ''e'' \<mapsto> Fin 2]
   \<and> map lz (layers (interpret_text 0 ''G1 Z E1\<newline>G1 E2'')) = [NaN, NaN]
   \<and> relative (state (foldl process_line (initial_pstate 0) [''G1 E1'', ''G92 E-10'', ''G91''])) = Some True
   \<and> map lz (layers (foldl process_line (initial_pstate 0) [''G1 E1'', ''G92 E-10'', ''G91''])) = [Fin 0]
   \<and> line_args ''G1 Z1 E1'' = [CHR ''z'' \<mapsto> Fin 1, CHR ''e'' \<mapsto> Fin 1]
   \<and> sz (state (interpret_text 0 ''G1 E1\<newline>G92 E-10\<newline>G91\<newline>G1 Z1 E1'')) = Fin 1
   \<and> map lz (layers (interpret_text 0 ''G1 E1\<newline>G92 E-10\<newline>G91\<newline>G1 Z1 E1'')) = [Fin 0]"
proof -
  have one: "source_lines ''G1 Z E1'' = [''G1 Z E1'']"
    by (simp add: text_eval)
  have nan1: "interpret_text 0 ''G1 Z E1'' = process_line (initial_pstate 0) ''G1 Z E1''"
    by (simp add: interpret_text_def one)
  have nan2: "map lz (layers (interpret_text 0 ''G1 Z E1\<newline>G1 E2'')) = [NaN, NaN]"
    by (simp add: interpret_text_def lines_C3 step_G1_Z_E1 step_G1_E2_after_NaN)
  have rel: "interpret_text 0 ''G1 E1\<newline>G92 E-10\<newline>G91\<newline>G1 Z1 E1''
             = process_line (foldl process_line (initial_pstate 0) [''G1 E1'', ''G92 E-10'', ''G91''])
                 ''G1 Z1 E1''"
    by (simp add: interpret_text_def lines_C3)
  show ?thesis
    unfolding nan1 rel state_before_relative_move step_G1_Z1_E1_relative
    using nan2 by (simp add: step_G1_Z_E1 args_C3)
qed

text \<open>
  Claim C3, amended. For a G0/G1 command in absolute mode whose extrusion delta, the target
  E minus the previous E in double arithmetic, is positive: when a current layer exists and
  the target Z and the layer's Z are the same number (neither is NaN; the two zeros are the
  same number), the Z values of the layers are the same list as before, so no layer is
  started; when there is no current layer, or the two are different numbers, or one of them
  is NaN, the list is the one before with the target Z appended, so exactly one layer is
  started, at the target Z. The target E and Z are the command's parameter, or the previous
  value when the command has none. A layer's Z never changes: over any sequence of lines,
  in either mode, the Z values of the layers before are a prefix of the Z values after.
\<close>

theorem C3_layer_start_in_absolute_mode:
  fixes cmd :: string and a :: args and ps :: pstate
  assumes cmd: "cmd = ''G0'' \<or> cmd = ''G1''" and ok: "cur_ok ps"
  defines "te \<equiv> (case a CHR ''e'' of Some v \<Rightarrow> v | None \<Rightarrow> se (state ps))"
    and "tz \<equiv> (case a CHR ''z'' of Some v \<Rightarrow> v | None \<Rightarrow> sz (state ps))"
  defines "d \<equiv> fsub te (se (state ps))"
  shows "(relative (state ps) \<noteq> Some True \<and> (d = PInf \<or> (\<exists>q. d = Fin q \<and> 0 < q)) \<longrightarrow>
            map lz (layers (exec_command cmd a ps)) =
              (if \<exists>i. currentLayer ps = Some i \<and> tz \<noteq> NaN \<and> lz (layers ps ! i) \<noteq> NaN
                      \<and> (tz = lz (layers ps ! i)
                          \<or> (tz = Fin 0 \<and> lz (layers ps ! i) = NegZero)
                          \<or> (tz = NegZero \<and> lz (layers ps ! i) = Fin 0))
               then map lz (layers ps) else map lz (layers ps) @ [tz]))
       \<and> prefix (map lz (layers ps)) (map lz (layers (foldl process_line ps ls)))"
proof -
  have start: "map lz (layers (exec_command cmd a ps)) =
              (if \<exists>i. currentLayer ps = Some i \<and> tz \<noteq> NaN \<and> lz (layers ps ! i) \<noteq> NaN
                      \<and> (tz = lz (layers ps ! i)
                          \<or> (tz = Fin 0 \<and> lz (layers ps ! i) = NegZero)
                          \<or> (tz = NegZero \<and> lz (layers ps ! i) = Fin 0))
               then map lz (layers ps) else map lz (layers ps) @ [tz])"
    if abs: "relative (state ps) \<noteq> Some True" and pos: "d = PInf \<or> (\<exists>q. d = Fin q \<and> 0 < q)"
  proof -
    have z: "sz (make_line (tcode ps) a (state ps)) = tz"
      unfolding tz_def by (rule make_line_absolute(2) [OF abs])
    have "extrusion_delta a ps = d"
      unfolding d_def te_def by (rule extrusion_delta_absolute_mode [OF abs])
    then have gt: "gt0 (extrusion_delta a ps)"
      using pos by (simp add: gt0_iff)
    show ?thesis
    proof (cases "currentLayer ps")
      case None
      then show ?thesis
        using gt by (simp add: exec_linear [OF cmd] linear_move_lz [OF ok] z)
    next
      case (Some i)
      then show ?thesis
        using gt by (simp add: exec_linear [OF cmd] linear_move_lz [OF ok] z js_ne_iff)
    qed
  qed
  have keep: "prefix (map lz (layers ps)) (map lz (layers (foldl process_line ps ls)))"
    by (rule foldl_lz_prefix [OF ok])
  show ?thesis
    using start keep by blast
qed

theorem C3_layer_start_witness:
  "(''G1'' = ''G0'' \<or> ''G1'' = ''G1'') \<and> cur_ok (initial_pstate 0)
   \<and> relative (state (initial_pstate 0)) \<noteq> Some True
   \<and> fsub (Fin 1) (se (state (initial_pstate 0))) = Fin 1
   \<and> map lz (layers (exec_command ''G1'' (line_args ''G1 Z2 E1'') (initial_pstate 0))) = [Fin 2]
   \<and> cur_ok (process_line (initial_pstate 0) ''G1 Z2 E1'')
   \<and> relative (state (process_line (initial_pstate 0) ''G1 Z2 E1'')) \<noteq> Some True
   \<and> fsub (Fin 2) (se (state (process_line (initial_pstate 0) ''G1 Z2 E1''))) = Fin 1
   \<and> map lz (layers (process_line (initial_pstate 0) ''G1 Z2 E1'')) = [Fin 2]
   \<and> map lz (layers (exec_command ''G1'' (line_args ''G1 X5 E2'')
                 (process_line (initial_pstate 0) ''G1 Z2 E1''))) = [Fin 2]
   \<and> map lz (layers (exec_command ''G1'' (line_args ''G1 X5 Z3 E2'')
                 (process_line (initial_pstate 0) ''G1 Z2 E1''))) = [Fin 2, Fin 3]
   \<and> prefix [Fin 2] (map lz (layers (foldl process_line
                 (process_line (initial_pstate 0) ''G1 Z2 E1'') [''G1 X5 Z3 E2''])))"
proof -
  let ?p0 = "initial_pstate 0" and ?p1 = "process_line (initial_pstate 0) ''G1 Z2 E1''"
  have h1: "''G1'' = ''G0'' \<or> ''G1'' = ''G1''" by simp
  have ok0: "cur_ok ?p0" by (simp add: cur_ok_def initial_pstate_def)
  have ok1: "cur_ok ?p1" by (simp add: cur_ok_def step_G1_Z2_E1)
  have s0: "relative (state ?p0) \<noteq> Some True" "se (state ?p0) = Fin 0" "sz (state ?p0) = Fin 0"
           "currentLayer ?p0 = None" "layers ?p0 = []"
    by (simp_all add: initial_pstate_def initial_state_def)
  have s1: "relative (state ?p1) \<noteq> Some True" "se (state ?p1) = Fin 1" "sz (state ?p1) = Fin 2"
           "currentLayer ?p1 = Some 0" "map lz (layers ?p1) = [Fin 2]" "lz (layers ?p1 ! 0) = Fin 2"
    by (simp_all add: step_G1_Z2_E1)
  have d0: "fsub (Fin 1) (se (state ?p0)) = Fin 1"
    by (simp add: s0 fsub_def)
  have d1: "fsub (Fin 2) (se (state ?p1)) = Fin 1"
    by (simp add: s1 fsub_def)
  from C3_layer_start_in_absolute_mode [OF h1 ok0, of "line_args ''G1 Z2 E1''" "[]"]
  have a: "map lz (layers (exec_command ''G1'' (line_args ''G1 Z2 E1'') ?p0)) = [Fin 2]"
    using s0(1) d0 by (simp add: args_G1_Z2_E1 s0)
  from C3_layer_start_in_absolute_mode [OF h1 ok1, of "line_args ''G1 X5 E2''" "[]"]
  have b: "map lz (layers (exec_command ''G1'' (line_args ''G1 X5 E2'') ?p1)) = [Fin 2]"
    using s1(1) d1 by (simp add: args_G1_X5_E2 s1)
  note inst = C3_layer_start_in_absolute_mode [OF h1 ok1, of "line_args ''G1 X5 Z3 E2''" "[''G1 X5 Z3 E2'']"]
  from inst
  have c: "map lz (layers (exec_command ''G1'' (line_args ''G1 X5 Z3 E2'') ?p1)) = [Fin 2, Fin 3]"
    using s1(1) d1 by (simp add: args_C3 s1)
  from inst
  have p: "prefix [Fin 2] (map lz (layers (foldl process_line ?p1 [''G1 X5 Z3 E2''])))"
    by (simp add: s1)
  show ?thesis
    using h1 ok0 s0(1) d0 a ok1 s1(1) d1 s1(5) b c p by simp
qed

text \<open>
  Claim C10. When a G0/G1 command with an extrusion delta that is not positive finds no
  current layer, the layer created for its segment has the Z of the segment's start, the
  previous state's z. A layer created by a command with a positive extrusion delta has the
  Z of the target.
\<close>

theorem C10_first_layer_of_a_travel_move:
  fixes cmd :: string and a :: args and ps :: pstate
  assumes cmd: "cmd = ''G0'' \<or> cmd = ''G1''" and ok: "cur_ok ps"
  defines "line \<equiv> make_line (tcode ps) a (state ps)"
    and "ps' \<equiv> exec_command cmd a ps"
  shows "(currentLayer ps = None \<and> \<not> gt0 (extrusion_delta a ps) \<longrightarrow>
            map lz (layers ps') = map lz (layers ps) @ [sz (state ps)])
       \<and> (gt0 (extrusion_delta a ps) \<and> length (layers ps') \<noteq> length (layers ps) \<longrightarrow>
            map lz (layers ps') = map lz (layers ps) @ [sz line])"
proof -
  have eq: "map lz (layers ps') = map lz (layers (linear_move a ps))"
    by (simp add: ps'_def exec_linear [OF cmd])
  have len: "length (layers ps') = length (map lz (layers (linear_move a ps)))"
    by (simp add: ps'_def exec_linear [OF cmd])
  show ?thesis
    unfolding eq len linear_move_lz [OF ok] line_def
    by (simp split: option.splits)
qed

theorem C10_first_layer_witness:
  "(''G0'' = ''G0'' \<or> ''G0'' = ''G1'') \<and> cur_ok (initial_pstate 0)
   \<and> currentLayer (initial_pstate 0) = None
   \<and> \<not> gt0 (extrusion_delta (line_args ''G1 X20 Z5'') (initial_pstate 0))
   \<and> map lz (layers (exec_command ''G0'' (line_args ''G1 X20 Z5'') (initial_pstate 0))) = [Fin 0]
   \<and> gt0 (extrusion_delta (line_args ''G1 Z2 E1'') (initial_pstate 0))
   \<and> map lz (layers (exec_command ''G0'' (line_args ''G1 Z2 E1'') (initial_pstate 0))) = [Fin 2]"
proof -
  let ?p0 = "initial_pstate 0"
  have h1: "''G0'' = ''G0'' \<or> ''G0'' = ''G1''" by simp
  have ok0: "cur_ok ?p0" by (simp add: cur_ok_def initial_pstate_def)
  have d0: "\<not> gt0 (extrusion_delta (line_args ''G1 X20 Z5'') ?p0)"
    by (simp add: args_G1_X20_Z5 extrusion_delta_def make_line_def delta_def absolute_def fsub_def
          initial_pstate_def initial_state_def)
  have d1: "gt0 (extrusion_delta (line_args ''G1 Z2 E1'') ?p0)"
    by (simp add: args_G1_Z2_E1 extrusion_delta_def make_line_def delta_def absolute_def fsub_def
          initial_pstate_def initial_state_def)
  have z1: "sz (make_line (tcode ?p0) (line_args ''G1 Z2 E1'') (state ?p0)) = Fin 2"
    by (simp add: args_G1_Z2_E1 make_line_def absolute_def initial_pstate_def initial_state_def)
  have s0: "currentLayer ?p0 = None" "layers ?p0 = []" "sz (state ?p0) = Fin 0"
    by (simp_all add: initial_pstate_def initial_state_def)
  from C10_first_layer_of_a_travel_move [OF h1 ok0, of "line_args ''G1 X20 Z5''"] d0
  have a: "map lz (layers (exec_command ''G0'' (line_args ''G1 X20 Z5'') ?p0)) = [Fin 0]"
    by (simp add: s0)
  have len: "length (layers (exec_command ''G0'' (line_args ''G1 Z2 E1'') ?p0)) \<noteq> length (layers ?p0)"
    by (simp add: args_G1_Z2_E1 step_eval initial_pstate_def initial_state_def Let_def)
  from C10_first_layer_of_a_travel_move [OF h1 ok0, of "line_args ''G1 Z2 E1''"] d1 len
  have b: "map lz (layers (exec_command ''G0'' (line_args ''G1 Z2 E1'') ?p0)) = [Fin 2]"
    by (simp add: s0 z1)
  show ?thesis
    using h1 ok0 s0(1) d0 a d1 b by simp
qed

section \<open>The extruding flag\<close>

lemma cur_ok_reachable: "cur_ok (foldl process_line (initial_pstate tc) ls)"
  by (rule cur_ok_foldl [OF cur_ok_initial])

lemma flag_off_exec_command: "extruding (state ps) \<noteq> Some True \<Longrightarrow> extruding (state (exec_command cmd a ps)) \<noteq> Some True"
  by (simp add: exec_command_def state_linear_move make_line_def set_position_def Let_def)

lemma flag_off_process_line: "extruding (state ps) \<noteq> Some True \<Longrightarrow> extruding (state (process_line ps l)) \<noteq> Some True"
  by (simp add: process_line_def flag_off_exec_command)

lemma flag_off_foldl: "extruding (state ps) \<noteq> Some True \<Longrightarrow> extruding (state (foldl process_line ps ls)) \<noteq> Some True"
  by (induction ls arbitrary: ps) (simp_all add: flag_off_process_line)

lemma flag_off_reachable: "extruding (state (foldl process_line (initial_pstate tc) ls)) \<noteq> Some True"
  by (rule flag_off_foldl) (simp add: initial_pstate_def initial_state_def)

lemma lines_C8: "source_lines ''G1 X10 E1\<newline>G1 X20'' = [''G1 X10 E1'', ''G1 X20'']"
  by (simp add: text_eval)

text \<open>
  Claim C8 says that once a G0/G1 command with a positive extrusion delta has set the
  extruding flag, every later G0/G1 move is classified as extruded or support, never as
  travel. In \<^verbatim>\<open>G1 X10 E1\<close> followed by \<^verbatim>\<open>G1 X20\<close> the first move sets the flag and is
  a support segment; the second, with no extrusion, goes to the travel list.
\<close>

theorem C8_later_move_is_travel:
  "layers (interpret_text 0 ''G1 X10 E1\<newline>G1 X20'') =
     [\<lparr>vertex = [], pathVertex = [Fin 10, Fin 0, Fin 0, Fin 20, Fin 0, Fin 0],
       supportVertex = [Fin 0, Fin 0, Fin 0, Fin 10, Fin 0, Fin 0], lz = Fin 0\<rparr>]"
  by (simp add: interpret_text_def lines_C8 step_G1_X10_E1 step_G1_X20)

text \<open>
  Claim C8, amended. The extruding flag starts false. A G0/G1 command whose extrusion delta
  is positive sets it before its own segment is classified, and the assignment
  \<^verbatim>\<open>state = line\<close> that ends every G0/G1 command leaves a state object without the flag.
  So at the start of every line of a parse the flag is not true, after every G0/G1 command
  it is undefined, and a G0/G1 command whose extrusion delta is not positive has its segment
  appended to the travel list, whatever came before; the other two lists of that layer stay
  as they were.
\<close>

theorem C8_extruding_flag_lapses:
  fixes tc :: nat and ls :: "string list" and cmd :: string and a :: args
  assumes cmd: "cmd = ''G0'' \<or> cmd = ''G1''"
  defines "ps \<equiv> foldl process_line (initial_pstate tc) ls"
  defines "ps' \<equiv> exec_command cmd a ps"
  defines "seg \<equiv> [sx (state ps), sy (state ps), sz (state ps),
                   sx (make_line (tcode ps) a (state ps)), sy (make_line (tcode ps) a (state ps)),
                   sz (make_line (tcode ps) a (state ps))]"
  shows "extruding (state (initial_pstate tc)) = Some False
       \<and> extruding (state ps) \<noteq> Some True
       \<and> extruding (state ps') = None
       \<and> (\<not> gt0 (extrusion_delta a ps) \<longrightarrow>
            (\<exists>i. currentLayer ps' = Some i
               \<and> pathVertex (layers ps' ! i) =
                    (if i < length (layers ps) then pathVertex (layers ps ! i) else []) @ seg
               \<and> vertex (layers ps' ! i) =
                    (if i < length (layers ps) then vertex (layers ps ! i) else [])
               \<and> supportVertex (layers ps' ! i) =
                    (if i < length (layers ps) then supportVertex (layers ps ! i) else [])))"
proof -
  have ok: "cur_ok ps" unfolding ps_def by (rule cur_ok_reachable)
  have off: "extruding (state ps) \<noteq> Some True" unfolding ps_def by (rule flag_off_reachable)
  have init: "extruding (state (initial_pstate tc)) = Some False"
    by (simp add: initial_pstate_def initial_state_def)
  have after: "extruding (state ps') = None"
    by (simp add: ps'_def exec_linear [OF cmd] state_linear_move make_line_def)
  have travel: "\<exists>i. currentLayer ps' = Some i
               \<and> pathVertex (layers ps' ! i) =
                    (if i < length (layers ps) then pathVertex (layers ps ! i) else []) @ seg
               \<and> vertex (layers ps' ! i) =
                    (if i < length (layers ps) then vertex (layers ps ! i) else [])
               \<and> supportVertex (layers ps' ! i) =
                    (if i < length (layers ps) then supportVertex (layers ps ! i) else [])"
    if "\<not> gt0 (extrusion_delta a ps)"
    using segment_classified [OF ok, of "make_line (tcode ps) a (state ps)" "tcode ps"] that off
    unfolding ps'_def exec_linear [OF cmd] linear_move_parts seg_def extrusion_delta_def
    by auto
  show ?thesis
    using init off after travel by blast
qed

theorem C8_extruding_flag_lapses_witness:
  "(''G1'' = ''G0'' \<or> ''G1'' = ''G1'')
   \<and> \<not> gt0 (extrusion_delta (line_args ''G1 X20'') (foldl process_line (initial_pstate 0) [''G1 X10 E1'']))
   \<and> extruding (state (foldl process_line (initial_pstate 0) [''G1 X10 E1''])) \<noteq> Some True
   \<and> (\<exists>i. currentLayer (exec_command ''G1'' (line_args ''G1 X20'')
               (foldl process_line (initial_pstate 0) [''G1 X10 E1''])) = Some i
          \<and> pathVertex (layers (exec_command ''G1'' (line_args ''G1 X20'')
               (foldl process_line (initial_pstate 0) [''G1 X10 E1''])) ! i)
              = [Fin 10, Fin 0, Fin 0, Fin 20, Fin 0, Fin 0])"
proof -
  let ?ps = "foldl process_line (initial_pstate 0) [''G1 X10 E1'']"
  have h1: "''G1'' = ''G0'' \<or> ''G1'' = ''G1''" by simp
  have ps: "?ps =
   \<lparr>state = \<lparr>sx = Fin 10, sy = Fin 0, sz = Fin 0, se = Fin 1, sf = Fin 0,
              extruding = None, relative = None\<rparr>,
    layers = [\<lparr>vertex = [], pathVertex = [],
               supportVertex = [Fin 0, Fin 0, Fin 0, Fin 10, Fin 0, Fin 0], lz = Fin 0\<rparr>],
    currentLayer = Some 0, tcode = 0\<rparr>"
    by (simp add: step_G1_X10_E1)
  have d: "\<not> gt0 (extrusion_delta (line_args ''G1 X20'') ?ps)"
    unfolding ps
    by (simp add: args_G1_X20 extrusion_delta_def make_line_def delta_def absolute_def fsub_def)
  have x: "sx (make_line 0 (line_args ''G1 X20'') (state ?ps)) = Fin 20"
          "sy (make_line 0 (line_args ''G1 X20'') (state ?ps)) = Fin 0"
          "sz (make_line 0 (line_args ''G1 X20'') (state ?ps)) = Fin 0"
    unfolding ps by (simp_all add: args_G1_X20 make_line_def absolute_def)
  have s: "tcode ?ps = 0" "sx (state ?ps) = Fin 10" "sy (state ?ps) = Fin 0" "sz (state ?ps) = Fin 0"
          "layers ?ps = [\<lparr>vertex = [], pathVertex = [],
               supportVertex = [Fin 0, Fin 0, Fin 0, Fin 10, Fin 0, Fin 0], lz = Fin 0\<rparr>]"
    unfolding ps by simp_all
  note inst = C8_extruding_flag_lapses [OF h1, of 0 "[''G1 X10 E1'']" "line_args ''G1 X20''"]
  from inst have off: "extruding (state ?ps) \<noteq> Some True" by blast
  from inst d have "\<exists>i. currentLayer (exec_command ''G1'' (line_args ''G1 X20'') ?ps) = Some i
          \<and> pathVertex (layers (exec_command ''G1'' (line_args ''G1 X20'') ?ps) ! i)
              = [Fin 10, Fin 0, Fin 0, Fin 20, Fin 0, Fin 0]"
    unfolding s x by (auto split: if_splits)
  then show ?thesis
    using d off by simp
qed

section \<open>The extrusion delta\<close>

text \<open>What \<^verbatim>\<open>delta(state.e, line.e)\<close> is in each positioning mode. \<^verbatim>\<open>line.e\<close> is
  already the absolute target, so in relative mode the value is the previous E plus the
  parameter, and the previous E itself when the command has no E parameter.\<close>

lemma extrusion_delta_relative:
  "relative (state ps) = Some True \<Longrightarrow>
     extrusion_delta a ps =
       (case a CHR ''e'' of Some v \<Rightarrow> fadd (se (state ps)) v | None \<Rightarrow> se (state ps))"
  by (simp add: extrusion_delta_def delta_def make_line_def absolute_def split: option.splits)

lemma extrusion_delta_absolute:
  "relative (state ps) \<noteq> Some True \<Longrightarrow>
     extrusion_delta a ps =
       fsub (se (make_line (tcode ps) a (state ps))) (se (state ps))"
  by (simp add: extrusion_delta_def delta_def)

lemma lines_C1:
  "source_lines ''G1 E5\<newline>G91\<newline>G1 X1 E-1'' = [''G1 E5'', ''G91'', ''G1 X1 E-1'']"
  "source_lines ''G1 E5\<newline>G91'' = [''G1 E5'', ''G91'']"
  by (simp_all add: text_eval)

text \<open>
  Claim C1: in relative mode the extrusion delta of a G0/G1 command is its raw E parameter,
  and zero when it has none. The loader run on \<^verbatim>\<open>G1 E5\<close>, \<^verbatim>\<open>G91\<close> is in relative
  mode with E at 5. For the command \<^verbatim>\<open>G1 X1 E-1\<close>, a retraction, it computes the delta 4,
  and for \<^verbatim>\<open>G1 X1\<close>, which has no E parameter, the delta 5: both count as extruding,
  and the retraction is recorded as a support segment.
\<close>

theorem C1_relative_delta_is_not_the_raw_parameter:
  "relative (state (interpret_text 0 ''G1 E5\<newline>G91'')) = Some True
   \<and> se (state (interpret_text 0 ''G1 E5\<newline>G91'')) = Fin 5
   \<and> line_args ''G1 X1 E-1'' CHR ''e'' = Some (Fin (- 1))
   \<and> extrusion_delta (line_args ''G1 X1 E-1'') (interpret_text 0 ''G1 E5\<newline>G91'') = Fin 4
   \<and> line_args ''G1 X1'' CHR ''e'' = None
   \<and> extrusion_delta (line_args ''G1 X1'') (interpret_text 0 ''G1 E5\<newline>G91'') = Fin 5
   \<and> layers (interpret_text 0 ''G1 E5\<newline>G91\<newline>G1 X1 E-1'') =
       [\<lparr>vertex = [], pathVertex = [],
         supportVertex = [Fin 0, Fin 0, Fin 0, Fin 0, Fin 0, Fin 0,
                          Fin 0, Fin 0, Fin 0, Fin 1, Fin 0, Fin 0], lz = Fin 0\<rparr>]"
proof -
  have ps: "interpret_text 0 ''G1 E5\<newline>G91'' =
   \<lparr>state = \<lparr>sx = Fin 0, sy = Fin 0, sz = Fin 0, se = Fin 5, sf = Fin 0,
              extruding = None, relative = Some True\<rparr>,
    layers = [\<lparr>vertex = [], pathVertex = [],
               supportVertex = [Fin 0, Fin 0, Fin 0, Fin 0, Fin 0, Fin 0], lz = Fin 0\<rparr>],
    currentLayer = Some 0, tcode = 0\<rparr>"
    by (simp add: interpret_text_def lines_C1 step_G1_E5 step_G91)
  have d1: "extrusion_delta (line_args ''G1 X1 E-1'') (interpret_text 0 ''G1 E5\<newline>G91'') = Fin 4"
    unfolding ps by (simp add: extrusion_delta_relative args_G1_X1_Em1)
  have d2: "extrusion_delta (line_args ''G1 X1'') (interpret_text 0 ''G1 E5\<newline>G91'') = Fin 5"
    unfolding ps by (simp add: extrusion_delta_relative args_G1_X1)
  have "interpret_text 0 ''G1 E5\<newline>G91\<newline>G1 X1 E-1''
        = process_line (interpret_text 0 ''G1 E5\<newline>G91'') ''G1 X1 E-1''"
    by (simp add: interpret_text_def lines_C1)
  then have l: "layers (interpret_text 0 ''G1 E5\<newline>G91\<newline>G1 X1 E-1'') =
       [\<lparr>vertex = [], pathVertex = [],
         supportVertex = [Fin 0, Fin 0, Fin 0, Fin 0, Fin 0, Fin 0,
                          Fin 0, Fin 0, Fin 0, Fin 1, Fin 0, Fin 0], lz = Fin 0\<rparr>]"
    unfolding ps
    by (simp add: process_line_def args_G1_X1_Em1 step_eval Let_def)
  show ?thesis
    using d1 d2 l by (simp add: ps args_G1_X1_Em1 args_G1_X1)
qed

section \<open>The offset of tool 1\<close>

lemma fadd_of_int:
  assumes "\<bar>i + j\<bar> < 2 ^ 53"
  shows "fadd (Fin (of_int i)) (Fin (of_int j)) = Fin (of_int (i + j))"
  using rnd_of_int [OF assms] by simp

lemma fsub_22_of_int:
  assumes "\<bar>i - 22\<bar> < 2 ^ 53"
  shows "fsub (Fin (of_int i)) (Fin 22) = Fin (of_int (i - 22))"
  using rnd_of_int [OF assms] by (simp add: fsub_def)

lemma rnd_tie_above_2_53: "rnd 9007199254740993 = Fin 9007199254740992"
proof -
  have f2: "round_even (9007199254740993 / 2) = 4503599627370496"
    by (simp add: round_even_def Let_def floor_numeral_div)
  have f3: "ilog2 9007199254740993 = 53"
    by (simp add: ilog2_def ipow_def compute_floorlog)
  show ?thesis
    by (simp add: rnd_def f3 f2 ipow_def)
qed

lemma lines_C4:
  "source_lines ''G92 X9007199254740991\<newline>G91\<newline>G1 X2''
     = [''G92 X9007199254740991'', ''G91'', ''G1 X2'']"
  by (simp add: text_eval)

lemma cmd_C4: "command_code ''G92 X9007199254740991'' = ''G92''" "command_code ''G91'' = ''G91''"
  "command_code ''G1 X2'' = ''G1''"
  "tool_markers ''G92 X9007199254740991'' tc = tc" "tool_markers ''G91'' tc = tc"
  "tool_markers ''G1 X2'' tc = tc"
  by (simp_all add: text_eval)

lemma state_C4:
  "state (process_line (process_line (initial_pstate tc) ''G92 X9007199254740991'') ''G91'') =
     \<lparr>sx = Fin 9007199254740991, sy = Fin 0, sz = Fin 0, se = Fin 0, sf = Fin 0,
      extruding = Some False, relative = Some True\<rparr>"
  "tcode (process_line (process_line (initial_pstate tc) ''G92 X9007199254740991'') ''G91'') = tc"
  by (simp_all add: process_line_def cmd_C4 args_G92_big exec_command_def set_position_def
        initial_pstate_def initial_state_def)

text \<open>
  Claim C4 says that with an explicit X the target X under tool 1 is exactly 22 less than
  under tool 0, in both modes. The numbers are doubles. From X at \<open>2^53 - 1\<close> in relative
  mode, \<^verbatim>\<open>G1 X2\<close> gives 9007199254740992 under tool 0 (the sum is rounded) and
  9007199254740971 under tool 1: they differ by 21.
\<close>

theorem C4_offset_is_21_after_rounding:
  "sx (state (interpret_text 0 ''G92 X9007199254740991\<newline>G91\<newline>G1 X2'')) = Fin 9007199254740992
   \<and> sx (state (interpret_text 1 ''G92 X9007199254740991\<newline>G91\<newline>G1 X2'')) = Fin 9007199254740971"
proof -
  have last_step: "sx (state (process_line ps ''G1 X2'')) = sx (make_line (tcode ps) [CHR ''x'' \<mapsto> Fin 2] (state ps))" for ps
    by (simp add: process_line_def cmd_C4 args_G1_X2 exec_command_def state_linear_move)
  have "interpret_text tc ''G92 X9007199254740991\<newline>G91\<newline>G1 X2''
        = process_line (process_line (process_line (initial_pstate tc) ''G92 X9007199254740991'') ''G91'') ''G1 X2''" for tc
    by (simp add: interpret_text_def lines_C4)
  then show ?thesis
    by (simp add: last_step state_C4 make_line_def absolute_def fsub_def rnd_tie_above_2_53)
qed

text \<open>
  Claim C4, amended. For a G0/G1 command: without an X parameter the target X is the prior X
  under either tool. With the X parameter \<open>v\<close> the target X under tool 0 is computed from
  \<open>v\<close> (\<open>v\<close> itself in absolute mode, the prior X plus \<open>v\<close> in relative mode) and under
  tool 1 in the same way from the double \<open>v - 22\<close>. When \<open>v\<close> and the prior X are
  integers of magnitude at most \<open>2^51\<close> no rounding occurs and the target under tool 1 is
  exactly 22 less than under tool 0.
\<close>

theorem C4_tool_offset:
  fixes cmd :: string and a :: args and ps :: pstate
  assumes cmd: "cmd = ''G0'' \<or> cmd = ''G1''"
  shows "(a CHR ''x'' = None \<longrightarrow> sx (state (exec_command cmd a ps)) = sx (state ps))
       \<and> (\<forall>v. a CHR ''x'' = Some v \<longrightarrow>
             sx (state (exec_command cmd a (ps\<lparr>tcode := 0\<rparr>))) = absolute (state ps) (sx (state ps)) v
           \<and> sx (state (exec_command cmd a (ps\<lparr>tcode := 1\<rparr>)))
               = absolute (state ps) (sx (state ps)) (fsub v (Fin 22)))
       \<and> (\<forall>i j. a CHR ''x'' = Some (Fin (of_int i)) \<and> sx (state ps) = Fin (of_int j)
                  \<and> \<bar>i\<bar> \<le> 2 ^ 51 \<and> \<bar>j\<bar> \<le> 2 ^ 51 \<longrightarrow>
             (\<exists>t. sx (state (exec_command cmd a (ps\<lparr>tcode := 0\<rparr>))) = Fin t
                \<and> sx (state (exec_command cmd a (ps\<lparr>tcode := 1\<rparr>))) = Fin (t - 22)))"
proof -
  have none: "sx (state (exec_command cmd a ps)) = sx (state ps)" if "a CHR ''x'' = None"
    using that by (simp add: exec_linear [OF cmd] state_linear_move make_line_def)
  have some: "sx (state (exec_command cmd a (ps\<lparr>tcode := 0\<rparr>))) = absolute (state ps) (sx (state ps)) v
           \<and> sx (state (exec_command cmd a (ps\<lparr>tcode := 1\<rparr>)))
               = absolute (state ps) (sx (state ps)) (fsub v (Fin 22))"
    if "a CHR ''x'' = Some v" for v
    using that by (simp add: exec_linear [OF cmd] state_linear_move make_line_def)
  have exact: "\<exists>t. sx (state (exec_command cmd a (ps\<lparr>tcode := 0\<rparr>))) = Fin t
                \<and> sx (state (exec_command cmd a (ps\<lparr>tcode := 1\<rparr>))) = Fin (t - 22)"
    if x: "a CHR ''x'' = Some (Fin (of_int i))" and p: "sx (state ps) = Fin (of_int j)"
      and i: "\<bar>i\<bar> \<le> 2 ^ 51" and j: "\<bar>j\<bar> \<le> 2 ^ 51" for i j
  proof -
    have b1: "\<bar>i - 22\<bar> < 2 ^ 53" using i by simp
    have b2: "\<bar>j + i\<bar> < 2 ^ 53" using i j by simp
    have b3: "\<bar>j + (i - 22)\<bar> < 2 ^ 53" using i j by simp
    have t0: "sx (state (exec_command cmd a (ps\<lparr>tcode := 0\<rparr>)))
              = absolute (state ps) (Fin (of_int j)) (Fin (of_int i))"
      using some [OF x] by (simp only: p)
    have t1: "sx (state (exec_command cmd a (ps\<lparr>tcode := 1\<rparr>)))
              = absolute (state ps) (Fin (of_int j)) (Fin (of_int (i - 22)))"
      using some [OF x] by (simp only: p fsub_22_of_int [OF b1])
    show ?thesis
    proof (cases "relative (state ps) = Some True")
      case True
      have "sx (state (exec_command cmd a (ps\<lparr>tcode := 0\<rparr>))) = Fin (of_int (j + i))"
        unfolding t0 by (simp only: absolute_def True fadd_of_int [OF b2] simp_thms if_True)
      moreover have "sx (state (exec_command cmd a (ps\<lparr>tcode := 1\<rparr>))) = Fin (of_int (j + (i - 22)))"
        unfolding t1 by (simp only: absolute_def True fadd_of_int [OF b3] simp_thms if_True)
      ultimately show ?thesis by simp
    next
      case False
      have "sx (state (exec_command cmd a (ps\<lparr>tcode := 0\<rparr>))) = Fin (of_int i)"
        unfolding t0 by (simp only: absolute_def False simp_thms if_False)
      moreover have "sx (state (exec_command cmd a (ps\<lparr>tcode := 1\<rparr>))) = Fin (of_int (i - 22))"
        unfolding t1 by (simp only: absolute_def False simp_thms if_False)
      ultimately show ?thesis by simp
    qed
  qed
  show ?thesis
    using none some exact by blast
qed

theorem C4_tool_offset_witness:
  "(''G1'' = ''G0'' \<or> ''G1'' = ''G1'')
   \<and> line_args ''G1 X10'' CHR ''x'' = Some (Fin (of_int 10))
   \<and> sx (state (initial_pstate 0)) = Fin (of_int 0)
   \<and> \<bar>10 :: int\<bar> \<le> 2 ^ 51 \<and> \<bar>0 :: int\<bar> \<le> 2 ^ 51
   \<and> sx (state (exec_command ''G1'' (line_args ''G1 X10'') ((initial_pstate 0)\<lparr>tcode := 0\<rparr>))) = Fin 10
   \<and> sx (state (exec_command ''G1'' (line_args ''G1 X10'') ((initial_pstate 0)\<lparr>tcode := 1\<rparr>))) = Fin (- 12)
   \<and> line_args ''G1 Y3'' CHR ''x'' = None
   \<and> sx (state (exec_command ''G1'' (line_args ''G1 Y3'') (initial_pstate 1))) = Fin 0"
proof -
  have h1: "''G1'' = ''G0'' \<or> ''G1'' = ''G1''" by simp
  have x: "line_args ''G1 X10'' CHR ''x'' = Some (Fin (of_int 10))"
    by (simp add: text_eval)
  have nx: "line_args ''G1 Y3'' CHR ''x'' = None"
    by (simp add: text_eval)
  have p: "sx (state (initial_pstate 0)) = Fin (of_int 0)" "sx (state (initial_pstate 1)) = Fin 0"
          "relative (state (initial_pstate 0)) = Some False"
    by (simp_all add: initial_pstate_def initial_state_def)
  have b: "\<bar>10 :: int\<bar> \<le> 2 ^ 51" "\<bar>0 :: int\<bar> \<le> 2 ^ 51" by simp_all
  note inst = C4_tool_offset [OF h1, of "line_args ''G1 X10''" "initial_pstate 0"]
  from inst x have t0: "sx (state (exec_command ''G1'' (line_args ''G1 X10'') ((initial_pstate 0)\<lparr>tcode := 0\<rparr>))) = Fin 10"
    by (simp add: absolute_def p)
  from inst x p(1) b obtain t where
    "sx (state (exec_command ''G1'' (line_args ''G1 X10'') ((initial_pstate 0)\<lparr>tcode := 0\<rparr>))) = Fin t"
    "sx (state (exec_command ''G1'' (line_args ''G1 X10'') ((initial_pstate 0)\<lparr>tcode := 1\<rparr>))) = Fin (t - 22)"
    by blast
  with t0 have t1: "sx (state (exec_command ''G1'' (line_args ''G1 X10'') ((initial_pstate 0)\<lparr>tcode := 1\<rparr>))) = Fin (- 12)"
    by simp
  from C4_tool_offset [OF h1, of "line_args ''G1 Y3''" "initial_pstate 1"] nx
  have n: "sx (state (exec_command ''G1'' (line_args ''G1 Y3'') (initial_pstate 1))) = Fin 0"
    by (simp add: initial_pstate_def initial_state_def)
  show ?thesis
    using h1 x p(1) b t0 t1 nx n by simp
qed

section \<open>The module variable of the active tool\<close>

lemma lines_C9: "source_lines ''G1 X10 E1\<newline>T1'' = [''G1 X10 E1'', ''T1'']"
  by (simp add: text_eval)

text \<open>
  Claim C9. \<^verbatim>\<open>tcode\<close> is 0 when the module is loaded, and \<^verbatim>\<open>parse\<close> starts from
  whatever value it holds. So \<^verbatim>\<open>parse\<close> is not a function of its text alone: on the text
  \<^verbatim>\<open>G1 X10 E1\<close>, \<^verbatim>\<open>T1\<close> the first call records the move as a support segment to
  X = 10 and leaves tool 1 selected; the second call on the same text records it as an
  extruded segment to X = -12.
\<close>

theorem C9_parse_depends_on_the_tool_left_behind:
  "tcode_at_load = 0
   \<and> tcode (initial_pstate tc) = tc
   \<and> (let text = ''G1 X10 E1\<newline>T1'';
           first = parse new_GCodeLoaderLayer tcode_at_load text;
           second = parse new_GCodeLoaderLayer (fst first) text
       in fst first = 1
        \<and> snd first =
            [\<lparr>positions = [], material = ExtrudingMaterial, layer_index = 0\<rparr>,
             \<lparr>positions = [], material = PathMaterial, layer_index = 0\<rparr>,
             \<lparr>positions = [Fin 0, Fin 0, Fin 0, Fin 10, Fin 0, Fin 0],
               material = SupportMaterial, layer_index = 0\<rparr>]
        \<and> snd second =
            [\<lparr>positions = [Fin 0, Fin 0, Fin 0, Fin (- 12), Fin 0, Fin 0],
               material = ExtrudingMaterial, layer_index = 0\<rparr>,
             \<lparr>positions = [], material = PathMaterial, layer_index = 0\<rparr>,
             \<lparr>positions = [], material = SupportMaterial, layer_index = 0\<rparr>]
        \<and> snd first \<noteq> snd second)"
proof -
  have first: "parse new_GCodeLoaderLayer 0 ''G1 X10 E1\<newline>T1'' =
     (1, [\<lparr>positions = [], material = ExtrudingMaterial, layer_index = 0\<rparr>,
          \<lparr>positions = [], material = PathMaterial, layer_index = 0\<rparr>,
          \<lparr>positions = [Fin 0, Fin 0, Fin 0, Fin 10, Fin 0, Fin 0],
            material = SupportMaterial, layer_index = 0\<rparr>])"
    by (simp add: parse_def interpret_text_def lines_C9 step_G1_X10_E1 step_T1 build_object_def
          addObject_def new_GCodeLoaderLayer_def)
  have second: "parse new_GCodeLoaderLayer (Suc 0) ''G1 X10 E1\<newline>T1'' =
     (1, [\<lparr>positions = [Fin 0, Fin 0, Fin 0, Fin (- 12), Fin 0, Fin 0],
            material = ExtrudingMaterial, layer_index = 0\<rparr>,
          \<lparr>positions = [], material = PathMaterial, layer_index = 0\<rparr>,
          \<lparr>positions = [], material = SupportMaterial, layer_index = 0\<rparr>])"
    using step_G1_X10_E1_tool1
    by (simp add: parse_def interpret_text_def lines_C9 step_T1 build_object_def
          addObject_def new_GCodeLoaderLayer_def)
  have load: "tcode_at_load = 0"
    by (simp add: tcode_at_load_def)
  have start: "tcode (initial_pstate tc) = tc"
    by (simp add: initial_pstate_def)
  show ?thesis
    unfolding load Let_def first using second start by simp
qed

end
